theory Spec2Isabelle
  imports Complex_Main
begin

chapter \<open>Model of the program\<close>

section \<open>Strings\<close>

text \<open>
  Python strings are modelled as lists of 8-bit characters read as ASCII text.  The
  character classes below are the ASCII part of what Python's \<^verbatim>\<open>str\<close> methods and
  the \<^verbatim>\<open>re\<close> module use; characters with codes from 128 on are letters of no class and
  are left alone by \<open>lower\<close>.
\<close>

definition is_digit :: "char \<Rightarrow> bool" where
  "is_digit c = ((48::nat) \<le> of_char c \<and> of_char c \<le> (57::nat))"

text \<open>Whitespace of \<^verbatim>\<open>str.strip()\<close> and of \<^verbatim>\<open>\s\<close>: tab, newline, vertical tab,
  form feed, carriage return, the four separators 28 to 31 and the blank.\<close>

definition is_space :: "char \<Rightarrow> bool" where
  "is_space c = (((9::nat) \<le> of_char c \<and> of_char c \<le> (13::nat))
     \<or> ((28::nat) \<le> of_char c \<and> of_char c \<le> (32::nat)))"

definition is_upper :: "char \<Rightarrow> bool" where
  "is_upper c = ((65::nat) \<le> of_char c \<and> of_char c \<le> (90::nat))"

definition is_lower :: "char \<Rightarrow> bool" where
  "is_lower c = ((97::nat) \<le> of_char c \<and> of_char c \<le> (122::nat))"

text \<open>\<^verbatim>\<open>\w\<close>: letters, digits and the underscore.\<close>

definition is_word :: "char \<Rightarrow> bool" where
  "is_word c = (is_digit c \<or> is_upper c \<or> is_lower c \<or> c = CHR ''_'')"

definition lower_char :: "char \<Rightarrow> char" where
  "lower_char c = (if is_upper c then char_of (of_char c + (32::nat)) else c)"

definition lower :: "string \<Rightarrow> string" where
  "lower s = map lower_char s"

definition lstrip :: "string \<Rightarrow> string" where
  "lstrip s = dropWhile is_space s"

definition rstrip :: "string \<Rightarrow> string" where
  "rstrip s = rev (dropWhile is_space (rev s))"

definition strip :: "string \<Rightarrow> string" where
  "strip s = lstrip (rstrip s)"

fun startswith :: "string \<Rightarrow> string \<Rightarrow> bool" where
  "startswith s [] = True"
| "startswith [] (p # ps) = False"
| "startswith (c # cs) (p # ps) = (c = p \<and> startswith cs ps)"

text \<open>\<open>contains w s\<close> is Python's \<^verbatim>\<open>w in s\<close> on strings: \<open>w\<close> occurs in \<open>s\<close> as a
  contiguous piece.\<close>

fun contains :: "string \<Rightarrow> string \<Rightarrow> bool" where
  "contains w [] = (w = [])"
| "contains w (c # cs) = (startswith (c # cs) w \<or> contains w cs)"

text \<open>\<^verbatim>\<open>any(word in s for word in ws)\<close> and \<^verbatim>\<open>sum(k for word in ws if word in s)\<close>.\<close>

definition any_in :: "string list \<Rightarrow> string \<Rightarrow> bool" where
  "any_in ws s = list_ex (\<lambda>w. contains w s) ws"

definition sum_in :: "nat \<Rightarrow> string list \<Rightarrow> string \<Rightarrow> nat" where
  "sum_in k ws s = k * length (filter (\<lambda>w. contains w s) ws)"


section \<open>Regular expressions\<close>

text \<open>
  The patterns of the source are written as terms of \<open>rx\<close>.  \<open>Star\<close> is the greedy
  \<^verbatim>\<open>*\<close>, \<open>LazyStar\<close> is \<^verbatim>\<open>*?\<close>, \<open>Eol\<close> is \<^verbatim>\<open>$\<close> (the end of the text, or the place
  before a last newline); \<^verbatim>\<open>+\<close>, \<^verbatim>\<open>?\<close>, \<^verbatim>\<open>{n}\<close> and literal words are derived below.
\<close>

datatype rx =
    Chr char
  | Digit
  | Space
  | Word
  | Dot
  | OneOf "char list"
  | Eps
  | Eol
  | Seq rx rx
  | Alt rx rx
  | Star rx
  | LazyStar rx

fun accepts :: "rx \<Rightarrow> char \<Rightarrow> bool" where
  "accepts (Chr a) c = (c = a)"
| "accepts Digit c = is_digit c"
| "accepts Space c = is_space c"
| "accepts Word c = is_word c"
| "accepts Dot c = (c \<noteq> CHR 0x0A)"
| "accepts (OneOf cs) c = (c \<in> set cs)"
| "accepts _ c = False"

definition at_end :: "string \<Rightarrow> bool" where
  "at_end s = (s = [] \<or> s = [CHR 0x0A])"

text \<open>
  \<open>rxm r s\<close> is the backtracking matcher started at the head of \<open>s\<close>: the list of what
  is left of \<open>s\<close> after each way of matching \<open>r\<close>, in the order in which the matcher of
  Python tries them (the first alternative before the second, the longest repetition
  first for \<open>Star\<close>, the shortest first for \<open>LazyStar\<close>).  A repetition only goes on
  after a round that consumed something.
\<close>

function (sequential) rxm :: "rx \<Rightarrow> string \<Rightarrow> string list" where
  "rxm Eps s = [s]"
| "rxm Eol s = (if at_end s then [s] else [])"
| "rxm (Seq a b) s = concat (map (rxm b) (rxm a s))"
| "rxm (Alt a b) s = rxm a s @ rxm b s"
| "rxm (Star a) s =
     concat (map (rxm (Star a)) (filter (\<lambda>t. length t < length s) (rxm a s))) @ [s]"
| "rxm (LazyStar a) s =
     s # concat (map (rxm (LazyStar a)) (filter (\<lambda>t. length t < length s) (rxm a s)))"
| "rxm r [] = []"
| "rxm r (c # cs) = (if accepts r c then [cs] else [])"
  by pat_completeness auto
termination
  by (relation "measures [\<lambda>(r, s). size r, \<lambda>(r, s). length s]") auto

fun lit :: "string \<Rightarrow> rx" where
  "lit [] = Eps"
| "lit (c # cs) = Seq (Chr c) (lit cs)"

fun seqs :: "rx list \<Rightarrow> rx" where
  "seqs [] = Eps"
| "seqs (r # rs) = Seq r (seqs rs)"

text \<open>\<^verbatim>\<open>(?:w1|w2|...)\<close> over literal words.\<close>

fun alts :: "string list \<Rightarrow> rx" where
  "alts [] = OneOf []"
| "alts [w] = lit w"
| "alts (w # ws) = Alt (lit w) (alts ws)"

definition plus :: "rx \<Rightarrow> rx" where
  "plus r = Seq r (Star r)"

definition opt :: "rx \<Rightarrow> rx" where
  "opt r = Alt r Eps"

text \<open>\<^verbatim>\<open>r{n}\<close>.\<close>

fun rep :: "nat \<Rightarrow> rx \<Rightarrow> rx" where
  "rep 0 r = Eps"
| "rep (Suc n) r = Seq r (rep n r)"

text \<open>\<^verbatim>\<open>re.match(r, s)\<close> is tried at the head of the text only; \<^verbatim>\<open>re.search(r, s)\<close> is
  tried at every position from the left, the empty rest included.\<close>

definition re_match :: "rx \<Rightarrow> string \<Rightarrow> bool" where
  "re_match r s = (rxm r s \<noteq> [])"

fun re_search :: "rx \<Rightarrow> string \<Rightarrow> bool" where
  "re_search r [] = re_match r []"
| "re_search r (c # cs) = (re_match r (c # cs) \<or> re_search r cs)"

text \<open>
  A pattern with one capture group is given as the part before the group, the group and
  the part after it.  \<open>group_at\<close> is the text of the group in the first successful way
  of matching the three parts at the head of \<open>s\<close>; \<open>re_search_group\<close> is
  \<^verbatim>\<open>re.search(...).group(1)\<close>, or \<open>None\<close> when the search finds nothing.
\<close>

definition group_at :: "rx \<Rightarrow> rx \<Rightarrow> rx \<Rightarrow> string \<Rightarrow> string option" where
  "group_at pre grp post s =
     (case concat (map (\<lambda>s1. concat (map (\<lambda>s2.
              map (\<lambda>s3. take (length s1 - length s2) s1) (rxm post s2)) (rxm grp s1)))
            (rxm pre s)) of
        [] \<Rightarrow> None
      | g # gs \<Rightarrow> Some g)"

fun re_search_group :: "rx \<Rightarrow> rx \<Rightarrow> rx \<Rightarrow> string \<Rightarrow> string option" where
  "re_search_group pre grp post [] = group_at pre grp post []"
| "re_search_group pre grp post (c # cs) =
     (case group_at pre grp post (c # cs) of
        Some g \<Rightarrow> Some g
      | None \<Rightarrow> re_search_group pre grp post cs)"


section \<open>The texts that a pattern matches\<close>

text \<open>
  The definitions of this section are not part of the program: they say which texts a
  pattern matches, so that properties of the matcher can be stated for every input.
  \<open>kleene A\<close> is the set of the texts put together from pieces of \<open>A\<close>; \<open>lang r\<close> is the
  set of the texts that \<open>r\<close> matches as a whole, for a pattern without \<open>Eol\<close> (which
  \<open>plain\<close> tests); \<open>rests L s\<close> is what is left of \<open>s\<close> after a text of \<open>L\<close> at its head;
  \<open>lower_stable r\<close> says that \<open>r\<close> goes on matching a text after the text is put in
  lower case.
\<close>

inductive_set kleene :: "string set \<Rightarrow> string set" for A :: "string set" where
  kleene_nil: "[] \<in> kleene A"
| kleene_step: "u \<in> A \<Longrightarrow> v \<in> kleene A \<Longrightarrow> u @ v \<in> kleene A"

fun lang :: "rx \<Rightarrow> string set" where
  "lang Eps = {[]}"
| "lang Eol = {}"
| "lang (Seq a b) = {u @ v | u v. u \<in> lang a \<and> v \<in> lang b}"
| "lang (Alt a b) = lang a \<union> lang b"
| "lang (Star a) = kleene (lang a)"
| "lang (LazyStar a) = kleene (lang a)"
| "lang r = {[c] | c. accepts r c}"

fun plain :: "rx \<Rightarrow> bool" where
  "plain Eol = False"
| "plain (Seq a b) = (plain a \<and> plain b)"
| "plain (Alt a b) = (plain a \<and> plain b)"
| "plain (Star a) = plain a"
| "plain (LazyStar a) = plain a"
| "plain r = True"

definition rests :: "string set \<Rightarrow> string \<Rightarrow> string set" where
  "rests L s = {t. \<exists>u \<in> L. s = u @ t}"



section \<open>Storage accessor (utils/database.py)\<close>

record user_row =
  user_id :: string
  name :: string
  city :: string
  dietary_category :: string
  medical_conditions :: "string list"

record mood_row =
  m_user :: string
  m_label :: string
  m_score :: int

record alert_row =
  alert_user :: string
  alert_reading :: real
  alert_kind :: string

record interaction_row =
  inter_user :: string
  source_agent :: string
  target_agent :: string
  data_type :: string

text \<open>The tables the handlers below write to; every row is appended, as the
  \<^verbatim>\<open>INSERT\<close> statements of the accessor do.  Timestamps and the free-text summary
  of an interaction are left out.\<close>

record database =
  users :: "user_row list"
  mood_tracking :: "mood_row list"
  cgm_readings :: "(string \<times> real) list"
  cgm_alerts :: "alert_row list"
  agent_interactions :: "interaction_row list"

definition validate_user_id :: "database \<Rightarrow> string \<Rightarrow> user_row option" where
  "validate_user_id db uid = find (\<lambda>u. user_id u = uid) (users db)"


definition store_cgm_reading :: "string \<Rightarrow> real \<Rightarrow> database \<Rightarrow> database" where
  "store_cgm_reading uid r db = db\<lparr>cgm_readings := cgm_readings db @ [(uid, r)]\<rparr>"

definition store_cgm_alert :: "string \<Rightarrow> real \<Rightarrow> string \<Rightarrow> database \<Rightarrow> database" where
  "store_cgm_alert uid r kind db =
     db\<lparr>cgm_alerts := cgm_alerts db
          @ [\<lparr>alert_user = uid, alert_reading = r, alert_kind = kind\<rparr>]\<rparr>"

definition log_agent_interaction ::
  "string \<Rightarrow> string \<Rightarrow> string \<Rightarrow> string \<Rightarrow> database \<Rightarrow> database" where
  "log_agent_interaction uid src tgt ty db =
     db\<lparr>agent_interactions := agent_interactions db
          @ [\<lparr>inter_user = uid, source_agent = src, target_agent = tgt, data_type = ty\<rparr>]\<rparr>"


section \<open>Glucose agent (agents/cgm_agent.py)\<close>

record cgm_range =
  min_bound :: int
  max_bound :: int
  target_min :: int
  target_max :: int

definition cgm_ranges :: "(string \<times> cgm_range) list" where
  "cgm_ranges =
    [(''Type 1 Diabetes'', \<lparr>min_bound = 80, max_bound = 250, target_min = 80, target_max = 180\<rparr>),
     (''Type 2 Diabetes'', \<lparr>min_bound = 90, max_bound = 220, target_min = 90, target_max = 180\<rparr>),
     (''Pre-diabetes'', \<lparr>min_bound = 85, max_bound = 180, target_min = 85, target_max = 140\<rparr>),
     (''None'', \<lparr>min_bound = 70, max_bound = 140, target_min = 70, target_max = 140\<rparr>),
     (''default'', \<lparr>min_bound = 70, max_bound = 180, target_min = 80, target_max = 140\<rparr>)]"

text \<open>\<^verbatim>\<open>self.cgm_ranges[key]\<close>; the source only uses the five keys of the table.\<close>

definition cgm_range_of :: "string \<Rightarrow> cgm_range" where
  "cgm_range_of key = the (map_of cgm_ranges key)"

text \<open>The range from the conditions of a user row: the chain of \<^verbatim>\<open>if\<close>/\<^verbatim>\<open>elif\<close> of
  \<^verbatim>\<open>get_user_cgm_range\<close>; \<open>conditions\<close> is the list decoded from the row.\<close>

definition range_for_conditions :: "string list \<Rightarrow> cgm_range" where
  "range_for_conditions conditions =
     (if ''Type 1 Diabetes'' \<in> set conditions then cgm_range_of ''Type 1 Diabetes''
      else if ''Type 2 Diabetes'' \<in> set conditions then cgm_range_of ''Type 2 Diabetes''
      else if ''Pre-diabetes'' \<in> set conditions then cgm_range_of ''Pre-diabetes''
      else if ''None'' \<in> set conditions \<or> conditions = [] then cgm_range_of ''None''
      else cgm_range_of ''default'')"

definition get_user_cgm_range :: "database \<Rightarrow> string \<Rightarrow> cgm_range" where
  "get_user_cgm_range db uid =
     (case validate_user_id db uid of
        None \<Rightarrow> cgm_range_of ''default''
      | Some user_data \<Rightarrow> range_for_conditions (medical_conditions user_data))"

text \<open>The band of a reading in a range: the nested \<^verbatim>\<open>if\<close> of
  \<^verbatim>\<open>process_glucose_reading\<close>.  A reading is a real number: the comparisons of a
  finite float with these integer bounds are exact.\<close>

definition alert_type_of :: "cgm_range \<Rightarrow> real \<Rightarrow> string" where
  "alert_type_of user_ranges glucose_reading =
     (if glucose_reading < of_int (target_min user_ranges) then
        (if glucose_reading < 70 then ''critical_low'' else ''low'')
      else if glucose_reading > of_int (target_max user_ranges) then
        (if glucose_reading > 250 then ''critical_high'' else ''high'')
      else ''normal'')"

text \<open>The replies of the agent tools.  A message is kept as the template it is built
  from, with the number that the source formats into it.\<close>

datatype message =
    Please_log_in string
  | Invalid_glucose_reading real
  | Glucose_message string real
  | Mood_logged string int

record tool_result =
  status :: string
  message :: message
  alert_type :: "string option"
  target_range :: "(int \<times> int) option"
  score_of :: "int option"

definition error_result :: "message \<Rightarrow> tool_result" where
  "error_result m =
     \<lparr>status = ''error'', message = m, alert_type = None, target_range = None,
      score_of = None\<rparr>"

text \<open>\<^verbatim>\<open>not self.authenticated_user_id\<close>: the field is \<^verbatim>\<open>None\<close> or the empty string.\<close>

definition not_authenticated :: "string option \<Rightarrow> bool" where
  "not_authenticated uid = (uid = None \<or> uid = Some [])"

text \<open>\<^verbatim>\<open>process_glucose_reading\<close>, with the storage passed through.  The list of
  recommendations of the reply (which reads recent trends and writes nothing) is left
  out.\<close>

definition process_glucose_reading ::
  "string option \<Rightarrow> real \<Rightarrow> database \<Rightarrow> tool_result \<times> database" where
  "process_glucose_reading authenticated_user_id glucose_reading db =
     (if not_authenticated authenticated_user_id then
        (error_result (Please_log_in ''before recording glucose readings''), db)
      else if glucose_reading < 20 \<or> glucose_reading > 600 then
        (error_result (Invalid_glucose_reading glucose_reading), db)
      else
        let uid = the authenticated_user_id;
            user_ranges = get_user_cgm_range db uid;
            alert = alert_type_of user_ranges glucose_reading;
            db1 = store_cgm_reading uid glucose_reading db;
            db2 = log_agent_interaction uid ''CGMAgent'' ''Database'' ''glucose_logging'' db1;
            db3 = (if alert \<noteq> ''normal''
                   then store_cgm_alert uid glucose_reading alert db2 else db2)
        in (\<lparr>status = ''success'', message = Glucose_message alert glucose_reading,
             alert_type = Some alert,
             target_range = Some (target_min user_ranges, target_max user_ranges),
             score_of = None\<rparr>, db3))"

section \<open>Intent classifier (main.py, \<^verbatim>\<open>_detect_primary_intent\<close>)\<close>

definition mood_direct :: "string list" where
  "mood_direct = [''feel'', ''mood'', ''feeling'', ''emotions'', ''emotional'']"

definition mood_positive :: "string list" where
  "mood_positive = [''happy'', ''great'', ''awesome'', ''fantastic'', ''wonderful'',
     ''excited'', ''thrilled'', ''amazing'', ''good'', ''better'', ''cheerful'', ''joyful'',
     ''elated'', ''ecstatic'']"

definition mood_negative :: "string list" where
  "mood_negative = [''sad'', ''terrible'', ''awful'', ''horrible'', ''bad'', ''worse'',
     ''depressed'', ''down'', ''low'', ''upset'', ''angry'', ''frustrated'', ''stressed'',
     ''anxious'', ''worried'', ''scared'', ''tired'', ''exhausted'', ''drained'']"

definition mood_self_ref :: "string list" where
  "mood_self_ref = [''i am'', ''i'm'', ''i feel'', ''i'm feeling'', ''feeling'', ''today i'',
     ''right now i'']"

definition cgm_direct :: "string list" where
  "cgm_direct = [''glucose'', ''blood sugar'', ''cgm'', ''reading'', ''mg/dl'',
     ''sugar level'', ''diabetes'', ''diabetic'']"

text \<open>The four patterns of \<^verbatim>\<open>cgm_indicators["values"]\<close>:
  \<^verbatim>\<open>\d+\s*(?:mg|glucose|sugar|reading)\<close>, \<^verbatim>\<open>glucose.*\d+\<close>, \<^verbatim>\<open>sugar.*\d+\<close>,
  \<^verbatim>\<open>reading.*\d+\<close>.\<close>

definition cgm_values :: "rx list" where
  "cgm_values =
     [seqs [plus Digit, Star Space, alts [''mg'', ''glucose'', ''sugar'', ''reading'']],
      seqs [lit ''glucose'', Star Dot, plus Digit],
      seqs [lit ''sugar'', Star Dot, plus Digit],
      seqs [lit ''reading'', Star Dot, plus Digit]]"

definition cgm_actions :: "string list" where
  "cgm_actions = [''check'', ''test'', ''measure'', ''monitor'']"

definition food_past_tense :: "string list" where
  "food_past_tense = [''ate'', ''had'', ''eaten'', ''consumed'', ''finished'', ''devoured'']"

definition food_present_tense :: "string list" where
  "food_present_tense = [''eating'', ''having'', ''consuming'']"

definition food_meals :: "string list" where
  "food_meals = [''breakfast'', ''lunch'', ''dinner'', ''snack'', ''meal'', ''brunch'',
     ''supper'']"

definition food_items :: "string list" where
  "food_items = [''food'', ''pizza'', ''salad'', ''chicken'', ''rice'', ''bread'', ''fruit'',
     ''vegetables'']"

definition food_context :: "string list" where
  "food_context = [''just'', ''recently'', ''earlier'', ''this morning'', ''for lunch'',
     ''for dinner'']"

definition planning_direct :: "string list" where
  "planning_direct = [''meal plan'', ''plan meal'', ''plan a meal'', ''meal planning'',
     ''menu'', ''meal ideas'', ''suggest meals'', ''what to eat'', ''plan my meals'']"

definition planning_verbs :: "string list" where
  "planning_verbs = [''plan'', ''planning'', ''suggest'', ''recommend'', ''generate'',
     ''create'']"

definition planning_questions :: "string list" where
  "planning_questions = [''what should i eat'', ''what can i eat'', ''meal suggestions'',
     ''food recommendations'']"

definition planning_time_based :: "string list" where
  "planning_time_based = [''tomorrow'', ''today'', ''this week'', ''next week'',
     ''meal prep'']"

definition insights_direct :: "string list" where
  "insights_direct = [''trends'', ''insights'', ''show me'', ''view'', ''display'',
     ''analysis'', ''patterns'', ''summary'', ''report'', ''data'', ''statistics'',
     ''dashboard'']"

definition insights_requests :: "string list" where
  "insights_requests = [''how am i doing'', ''my progress'', ''track my'', ''history'',
     ''overview'', ''my health'', ''health dashboard'']"

text \<open>\<^verbatim>\<open>i'?m\s+(stupid|dumb|worthless|useless|terrible|awful|pathetic)\<close>\<close>

definition rx_self_deprecating :: rx where
  "rx_self_deprecating =
     seqs [Chr CHR ''i'', opt (Chr CHR 0x27), Chr CHR ''m'', plus Space,
           alts [''stupid'', ''dumb'', ''worthless'', ''useless'', ''terrible'', ''awful'',
                 ''pathetic'']]"

text \<open>\<^verbatim>\<open>i\s+feel\s+like\<close>\<close>

definition rx_feel_like :: rx where
  "rx_feel_like = seqs [Chr CHR ''i'', plus Space, lit ''feel'', plus Space, lit ''like'']"

text \<open>\<^verbatim>\<open>i'?m\s+(so|really|very|extremely)\s+\w+\<close>\<close>

definition rx_intensity :: rx where
  "rx_intensity =
     seqs [Chr CHR ''i'', opt (Chr CHR 0x27), Chr CHR ''m'', plus Space,
           alts [''so'', ''really'', ''very'', ''extremely''], plus Space, plus Word]"

definition calculate_mood_score :: "string \<Rightarrow> nat" where
  "calculate_mood_score input_lower =
     sum_in 2 mood_direct input_lower
   + sum_in 2 mood_positive input_lower
   + sum_in 2 mood_negative input_lower
   + sum_in 3 mood_self_ref input_lower
   + (if re_search rx_self_deprecating input_lower then 5 else 0)
   + (if re_search rx_feel_like input_lower then 4 else 0)
   + (if re_search rx_intensity input_lower then 3 else 0)"

definition calculate_cgm_score :: "string \<Rightarrow> nat" where
  "calculate_cgm_score input_lower =
     sum_in 2 cgm_direct input_lower + sum_in 1 cgm_actions input_lower"

definition calculate_food_score :: "string \<Rightarrow> nat" where
  "calculate_food_score input_lower =
     (let score = sum_in 3 food_past_tense input_lower
                + sum_in 2 food_present_tense input_lower
                + sum_in 1 food_items input_lower
                + sum_in 1 food_context input_lower;
          has_logging_context = any_in (food_past_tense @ food_context) input_lower;
          has_planning_context = any_in planning_verbs input_lower
      in if \<not> has_planning_context \<and> has_logging_context
           then score + sum_in 2 food_meals input_lower
         else if \<not> has_planning_context
           then score + sum_in 1 food_meals input_lower
         else score)"

definition calculate_planning_score :: "string \<Rightarrow> nat" where
  "calculate_planning_score input_lower =
     (let score = sum_in 4 planning_direct input_lower
                + sum_in 2 planning_questions input_lower
                + sum_in 1 planning_time_based input_lower;
          planning_verbs_present = any_in planning_verbs input_lower;
          meal_words_present = any_in [''meal'', ''menu'', ''food'', ''diet''] input_lower
      in if planning_verbs_present \<and> meal_words_present then score + 5
         else if planning_verbs_present then score + 2
         else score)"

definition calculate_insights_score :: "string \<Rightarrow> nat" where
  "calculate_insights_score input_lower =
     sum_in 2 insights_direct input_lower
   + sum_in 2 insights_requests input_lower
   + (if any_in [''show'', ''view'', ''display'', ''get''] input_lower then 5 else 0)"

text \<open>The dictionary \<^verbatim>\<open>scores\<close>, in the order in which its keys are inserted.\<close>

definition scores :: "string \<Rightarrow> (string \<times> nat) list" where
  "scores input_lower =
     [(''mood_tracking'', calculate_mood_score input_lower),
      (''cgm_monitoring'', calculate_cgm_score input_lower),
      (''food_logging'', calculate_food_score input_lower),
      (''meal_planning'', calculate_planning_score input_lower),
      (''insights_request'', calculate_insights_score input_lower)]"

text \<open>\<^verbatim>\<open>max(values)\<close> and \<^verbatim>\<open>max(d, key=d.get)\<close>: Python's \<^verbatim>\<open>max\<close> keeps the element it
  has and replaces it only by a strictly greater one, so the first maximal key is
  returned.\<close>

definition max_value :: "(string \<times> nat) list \<Rightarrow> nat" where
  "max_value d = fold (\<lambda>kv m. if m < snd kv then snd kv else m) (tl d) (snd (hd d))"

definition max_key :: "(string \<times> nat) list \<Rightarrow> string" where
  "max_key d = fst (fold (\<lambda>kv best. if snd best < snd kv then kv else best) (tl d) (hd d))"

definition detect_primary_intent :: "string \<Rightarrow> string" where
  "detect_primary_intent user_input =
     (let input_lower = strip (lower user_input)
      in if list_ex (\<lambda>pattern. re_search pattern input_lower) cgm_values
           then ''cgm_monitoring''
         else if max_value (scores input_lower) > 0 then max_key (scores input_lower)
         else ''general_question'')"


section \<open>Lexical extractors (main.py)\<close>

text \<open>\<^verbatim>\<open>(\d+(?:\.\d+)?)\<close>, the group of the glucose patterns.\<close>

definition rx_number :: rx where
  "rx_number = Seq (plus Digit) (opt (Seq (Chr CHR ''.'') (plus Digit)))"

text \<open>The five patterns of \<^verbatim>\<open>_extract_glucose_reading\<close>, each as the part before the
  group and the part after it (the group is \<open>rx_number\<close> in all of them).\<close>

definition glucose_patterns :: "(rx \<times> rx) list" where
  "glucose_patterns =
     [(Eps, Seq (Star Space) (alts [''mg/dl'', ''mg'', ''glucose'', ''reading''])),
      (Seq (lit ''glucose'') (LazyStar Dot), Eps),
      (Seq (lit ''reading'') (LazyStar Dot), Eps),
      (Seq (lit ''sugar'') (LazyStar Dot), Eps),
      (Eps, Eps)]"

definition digit_value :: "char \<Rightarrow> nat" where
  "digit_value c = of_char c - 48"

definition digits_value :: "string \<Rightarrow> nat" where
  "digits_value ds = foldl (\<lambda>n c. 10 * n + digit_value c) 0 ds"

text \<open>
  \<^verbatim>\<open>float(text)\<close> on the texts the group can hold: digits, or digits, a point and
  digits.  The result is the decimal number itself (Python rounds it to the nearest
  double); \<open>None\<close> stands for \<^verbatim>\<open>ValueError\<close>.
\<close>

definition py_float :: "string \<Rightarrow> real option" where
  "py_float t =
     (let ip = takeWhile is_digit t; rest = dropWhile is_digit t
      in if ip = [] then None
         else if rest = [] then Some (of_nat (digits_value ip))
         else if hd rest = CHR ''.'' \<and> tl rest \<noteq> [] \<and> list_all is_digit (tl rest)
           then Some (of_nat (digits_value ip)
                      + of_nat (digits_value (tl rest)) / 10 ^ length (tl rest))
         else None)"

text \<open>The loop over the patterns: the first pattern that is found and whose group
  converts gives the result; a \<^verbatim>\<open>ValueError\<close> goes on with the next pattern.\<close>

fun first_reading :: "(rx \<times> rx) list \<Rightarrow> string \<Rightarrow> real option" where
  "first_reading [] t = None"
| "first_reading ((pre, post) # ps) t =
     (case re_search_group pre rx_number post t of
        None \<Rightarrow> first_reading ps t
      | Some g \<Rightarrow> (case py_float g of
                     Some v \<Rightarrow> Some v
                   | None \<Rightarrow> first_reading ps t))"

definition extract_glucose_reading :: "string \<Rightarrow> real option" where
  "extract_glucose_reading text = first_reading glucose_patterns (lower text)"

text \<open>The first prefix of the list that the lowered text starts with is cut off the
  text itself; the rest is stripped.\<close>

fun strip_prefix :: "string list \<Rightarrow> string \<Rightarrow> string" where
  "strip_prefix [] text = strip text"
| "strip_prefix (prefix # prefixes) text =
     (if startswith (lower text) prefix then strip (drop (length prefix) text)
      else strip_prefix prefixes text)"

definition extract_mood_from_input :: "string \<Rightarrow> string" where
  "extract_mood_from_input text =
     strip_prefix [''i feel'', ''i'm feeling'', ''feeling'', ''i am'', ''mood:'',
                   ''my mood is''] text"

definition extract_meal_description :: "string \<Rightarrow> string" where
  "extract_meal_description text =
     strip_prefix [''i ate'', ''i had'', ''just ate'', ''just had'', ''meal:'', ''food:'',
                   ''consumed'', ''eaten'', ''my meal was'', ''for lunch i had'',
                   ''for dinner i had'', ''for breakfast i had''] text"

text \<open>The patterns of \<^verbatim>\<open>_extract_name_from_input\<close>, the group being \<^verbatim>\<open>(.+)\<close>:
  \<^verbatim>\<open>my name is (.+)\<close>, \<^verbatim>\<open>i am (.+)\<close>, \<^verbatim>\<open>name:?\s*(.+)\<close>, \<^verbatim>\<open>called (.+)\<close>,
  \<^verbatim>\<open>i'm (.+)\<close>.\<close>

definition name_patterns :: "rx list" where
  "name_patterns =
     [lit ''my name is '', lit ''i am '',
      seqs [lit ''name'', opt (Chr CHR '':''), Star Space],
      lit ''called '', lit ''i'm '']"

fun first_name :: "rx list \<Rightarrow> string \<Rightarrow> string" where
  "first_name [] text = strip text"
| "first_name (pre # ps) text =
     (case re_search_group pre (plus Dot) Eps (lower text) of
        Some g \<Rightarrow> strip g
      | None \<Rightarrow> first_name ps text)"

definition extract_name_from_input :: "string \<Rightarrow> string" where
  "extract_name_from_input text = first_name name_patterns text"

text \<open>\<^verbatim>\<open>s.split(sep)\<close> for a separator of one character, and \<^verbatim>\<open>s.zfill(2)\<close>.\<close>

fun split_on :: "char \<Rightarrow> string \<Rightarrow> string list" where
  "split_on sep [] = [[]]"
| "split_on sep (c # cs) =
     (if c = sep then [] # split_on sep cs
      else (case split_on sep cs of
              [] \<Rightarrow> [[c]]
            | p # ps \<Rightarrow> (c # p) # ps))"

definition zfill2 :: "string \<Rightarrow> string" where
  "zfill2 s = replicate (2 - length s) CHR ''0'' @ s"

text \<open>The three date patterns \<^verbatim>\<open>(\d{4}-\d{2}-\d{2})\<close>, \<^verbatim>\<open>(\d{1,2}/\d{1,2}/\d{4})\<close>,
  \<^verbatim>\<open>(\d{1,2}-\d{1,2}-\d{4})\<close>; each is one group.\<close>

definition date_patterns :: "rx list" where
  "date_patterns =
     [seqs [rep 4 Digit, Chr CHR ''-'', rep 2 Digit, Chr CHR ''-'', rep 2 Digit],
      seqs [Digit, opt Digit, Chr CHR ''/'', Digit, opt Digit, Chr CHR ''/'', rep 4 Digit],
      seqs [Digit, opt Digit, Chr CHR ''-'', Digit, opt Digit, Chr CHR ''-'', rep 4 Digit]]"

text \<open>The body of the \<^verbatim>\<open>try\<close> for one found date; \<open>None\<close> stands for the exception
  of an unpacking that does not find three parts, which the bare \<^verbatim>\<open>except\<close> turns
  into \<^verbatim>\<open>continue\<close>.\<close>

definition normalise_date :: "string \<Rightarrow> string option" where
  "normalise_date date_str =
     (if CHR ''/'' \<in> set date_str then
        (case split_on CHR ''/'' date_str of
           [month, day, year] \<Rightarrow> Some (year @ ''-'' @ zfill2 month @ ''-'' @ zfill2 day)
         | _ \<Rightarrow> None)
      else if CHR ''-'' \<in> set date_str \<and> length (hd (split_on CHR ''-'' date_str)) \<le> 2 then
        (case split_on CHR ''-'' date_str of
           [month, day, year] \<Rightarrow> Some (year @ ''-'' @ zfill2 month @ ''-'' @ zfill2 day)
         | _ \<Rightarrow> None)
      else Some date_str)"

fun first_date :: "rx list \<Rightarrow> string \<Rightarrow> string option" where
  "first_date [] text = None"
| "first_date (p # ps) text =
     (case re_search_group Eps p Eps text of
        None \<Rightarrow> first_date ps text
      | Some date_str \<Rightarrow> (case normalise_date date_str of
                            Some d \<Rightarrow> Some d
                          | None \<Rightarrow> first_date ps text))"

text \<open>The clock is outside the model: the three dates that \<^verbatim>\<open>datetime.now()\<close> gives,
  already formatted, are arguments.\<close>

record clock =
  today :: string
  tomorrow :: string
  yesterday :: string

definition extract_date_from_input :: "clock \<Rightarrow> string \<Rightarrow> string option" where
  "extract_date_from_input now text =
     (let text_lower = lower text
      in if contains ''today'' text_lower then Some (today now)
         else if contains ''tomorrow'' text_lower then Some (tomorrow now)
         else if contains ''yesterday'' text_lower then Some (yesterday now)
         else first_date date_patterns text)"


section \<open>Mood agent (agents/mood_tracker_agent.py)\<close>

definition extract_simple_mood_label :: "string \<Rightarrow> string" where
  "extract_simple_mood_label mood_input =
     (let mood_lower = strip (lower mood_input)
      in if any_in [''terrible'', ''awful'', ''horrible'', ''worst''] mood_lower
           then ''terrible''
         else if any_in [''very sad'', ''depressed'', ''miserable'', ''devastated''] mood_lower
           then ''depressed''
         else if any_in [''sad'', ''down'', ''low'', ''blue'', ''upset''] mood_lower
           then ''sad''
         else if any_in [''tired'', ''sluggish'', ''drained'', ''exhausted'', ''weary'']
                   mood_lower
           then ''tired''
         else if any_in [''bad'', ''not good'', ''poor'', ''rough''] mood_lower
           then ''bad''
         else if any_in [''ecstatic'', ''overjoyed'', ''blissful'', ''euphoric'', ''elated'']
                   mood_lower
           then ''ecstatic''
         else if any_in [''excited'', ''amazing'', ''thrilled'', ''energetic'', ''pumped'']
                   mood_lower
           then ''excited''
         else if any_in [''great'', ''wonderful'', ''fantastic'', ''awesome'', ''excellent'']
                   mood_lower
           then ''great''
         else if any_in [''happy'', ''positive'', ''cheerful'', ''content'', ''joyful'']
                   mood_lower
           then ''happy''
         else if any_in [''good'', ''decent'', ''alright'', ''better'', ''well''] mood_lower
           then ''good''
         else if any_in [''okay'', ''fine'', ''meh'', ''so-so''] mood_lower
           then ''okay''
         else
           let pos_count = sum_in 1 [''love'', ''like'', ''enjoy'', ''nice'', ''pleasant'',
                                     ''bright''] mood_lower;
               neg_count = sum_in 1 [''hate'', ''dislike'', ''stress'', ''worry'', ''angry'',
                                     ''frustrated''] mood_lower
           in if pos_count > neg_count then ''good''
              else if neg_count > pos_count then ''down''
              else ''neutral'')"

definition mood_scores :: "(string \<times> int) list" where
  "mood_scores =
     [(''terrible'', 1), (''awful'', 1), (''horrible'', 1),
      (''depressed'', 2), (''miserable'', 2),
      (''sad'', 3), (''down'', 3), (''low'', 3),
      (''tired'', 4), (''bad'', 4),
      (''okay'', 5), (''neutral'', 5), (''fine'', 5),
      (''good'', 6), (''decent'', 6), (''alright'', 6),
      (''happy'', 7), (''positive'', 7), (''cheerful'', 7),
      (''great'', 8), (''wonderful'', 8), (''fantastic'', 8),
      (''excited'', 9), (''amazing'', 9), (''thrilled'', 9),
      (''ecstatic'', 10), (''overjoyed'', 10), (''blissful'', 10)]"

text \<open>The tiers tried when the label is not a key of the table.\<close>

definition fuzzy_mood_score :: "string \<Rightarrow> int" where
  "fuzzy_mood_score mood_lower =
     (if any_in [''terrible'', ''awful'', ''horrible'', ''worst''] mood_lower then 1
      else if any_in [''very sad'', ''depressed'', ''miserable'', ''devastated''] mood_lower
        then 2
      else if any_in [''sad'', ''down'', ''low'', ''blue'', ''upset''] mood_lower then 3
      else if any_in [''tired'', ''sluggish'', ''drained'', ''exhausted'', ''weary''] mood_lower
        then 4
      else if any_in [''good'', ''decent'', ''alright'', ''better''] mood_lower then 6
      else if any_in [''happy'', ''positive'', ''cheerful'', ''content''] mood_lower then 7
      else if any_in [''great'', ''wonderful'', ''fantastic'', ''awesome''] mood_lower then 8
      else if any_in [''excited'', ''amazing'', ''thrilled'', ''energetic''] mood_lower then 9
      else if any_in [''ecstatic'', ''overjoyed'', ''blissful'', ''euphoric''] mood_lower
        then 10
      else 5)"

text \<open>The field \<^verbatim>\<open>mood_score\<close> of the dictionary that \<^verbatim>\<open>convert_mood_to_score\<close>
  returns.\<close>

definition convert_mood_to_score :: "string \<Rightarrow> int" where
  "convert_mood_to_score mood_label =
     (let mood_lower = strip (lower mood_label)
      in case map_of mood_scores mood_lower of
           Some score \<Rightarrow> score
         | None \<Rightarrow> fuzzy_mood_score mood_lower)"




section \<open>Handlers whose work is done by the language model and the storage\<close>

text \<open>
  An exception of class \<^verbatim>\<open>Exception\<close> with its text; a call that may raise returns
  \<open>Inl\<close> of it.  Interrupts and exits, which are not of that class, are outside the
  model.
\<close>

datatype exn = Exception string








section \<open>Session and turn dispatch (main.py, \<^verbatim>\<open>HealthAgentSystem\<close>)\<close>

text \<open>\<^verbatim>\<open>^\d{4}$\<close>, \<^verbatim>\<open>^[a-f0-9-]{8,}$\<close> and the pattern of a UUID,
  \<^verbatim>\<open>^[a-f0-9]{8}-[a-f0-9]{4}-[a-f0-9]{4}-[a-f0-9]{4}-[a-f0-9]{12}$\<close>; the \<^verbatim>\<open>^\<close> is the
  head of the text, where \<^verbatim>\<open>re.match\<close> starts.\<close>

definition hex_digit :: rx where
  "hex_digit = OneOf ''abcdef0123456789''"

definition hex_or_dash :: rx where
  "hex_or_dash = OneOf ''abcdef0123456789-''"

definition rx_four_digits :: rx where
  "rx_four_digits = Seq (rep 4 Digit) Eol"

definition rx_hex_token :: rx where
  "rx_hex_token = seqs [rep 8 hex_or_dash, Star hex_or_dash, Eol]"

definition rx_uuid :: rx where
  "rx_uuid = seqs [rep 8 hex_digit, Chr CHR ''-'', rep 4 hex_digit, Chr CHR ''-'',
                   rep 4 hex_digit, Chr CHR ''-'', rep 4 hex_digit, Chr CHR ''-'',
                   rep 12 hex_digit, Eol]"

definition looks_like_user_id :: "string \<Rightarrow> bool" where
  "looks_like_user_id text =
     (re_match rx_four_digits text
      \<or> re_match rx_hex_token (lower text)
      \<or> re_match rx_uuid (lower text))"

definition looks_like_name_search :: "string \<Rightarrow> bool" where
  "looks_like_name_search text =
     any_in [''my name is'', ''i am'', ''name:'', ''called'', ''i'm''] (lower text)"

text \<open>The texts of the replies, kept as templates.\<close>

datatype response =
    Please_enter_a_message
  | Welcome_back string string
  | Invalid_user_id
  | Found_a_match string string
  | Found_matches "user_row list" string
  | No_users_found string
  | Login_help
  | System_features
  | Goodbye "string option"
  | Handler_reply string
  | Sorry_error string

record reply =
  response :: response
  agent_used :: "string option"
  reply_state :: string
  suggested_user_id :: "string option"

text \<open>An agent object, as far as the session is concerned: the user id it was made
  for.\<close>

record agent =
  agent_user :: "string option"

record session =
  authenticated_user_id :: "string option"
  current_user_name :: "string option"
  current_user_location :: "string option"
  system_state :: string
  cgm_agent :: "agent option"
  mood_tracker_agent :: "agent option"
  food_intake_agent :: "agent option"
  meal_planner_agent :: "agent option"
  interrupt_agent_user :: "string option"

text \<open>
  The collaborators of the dispatcher that reach the storage or the language model and
  may raise: the two lookups of the greeting agent and the six \<^verbatim>\<open>_handle_...\<close>
  methods, each given the session and the input.
\<close>

record collaborators =
  greeting_validate_user_id :: "string \<Rightarrow> exn + user_row option"
  greeting_search_users_by_name :: "string \<Rightarrow> exn + user_row list"
  handle_mood_tracking :: "session \<Rightarrow> string \<Rightarrow> exn + reply"
  handle_cgm_monitoring :: "session \<Rightarrow> string \<Rightarrow> exn + reply"
  handle_food_logging :: "session \<Rightarrow> string \<Rightarrow> exn + reply"
  handle_meal_planning :: "session \<Rightarrow> string \<Rightarrow> exn + reply"
  handle_insights_request :: "session \<Rightarrow> string \<Rightarrow> exn + reply"
  handle_general_question :: "session \<Rightarrow> string \<Rightarrow> exn + reply"

definition initial_session :: session where
  "initial_session =
     \<lparr>authenticated_user_id = None, current_user_name = None,
      current_user_location = None, system_state = ''unauthenticated'',
      cgm_agent = None, mood_tracker_agent = None, food_intake_agent = None,
      meal_planner_agent = None, interrupt_agent_user = None\<rparr>"

definition initialize_authenticated_agents :: "session \<Rightarrow> session" where
  "initialize_authenticated_agents s =
     (if not_authenticated (authenticated_user_id s) then s
      else s\<lparr>cgm_agent := Some \<lparr>agent_user = authenticated_user_id s\<rparr>,
             mood_tracker_agent := Some \<lparr>agent_user = authenticated_user_id s\<rparr>,
             food_intake_agent := Some \<lparr>agent_user = authenticated_user_id s\<rparr>,
             meal_planner_agent := Some \<lparr>agent_user = authenticated_user_id s\<rparr>,
             interrupt_agent_user := authenticated_user_id s\<rparr>)"

definition greeting_reply :: "response \<Rightarrow> session \<Rightarrow> reply" where
  "greeting_reply r s =
     \<lparr>response = r, agent_used = Some ''GreetingAgent'', reply_state = system_state s,
      suggested_user_id = None\<rparr>"

definition handle_authentication ::
  "collaborators \<Rightarrow> session \<Rightarrow> string \<Rightarrow> exn + reply \<times> session" where
  "handle_authentication env s user_input =
     (if looks_like_user_id user_input then
        (case greeting_validate_user_id env user_input of
           Inl e \<Rightarrow> Inl e
         | Inr (Some user_data) \<Rightarrow>
             let s1 = s\<lparr>authenticated_user_id := Some user_input,
                        current_user_name := Some (name user_data),
                        current_user_location := Some (city user_data),
                        system_state := ''authenticated''\<rparr>;
                 s2 = initialize_authenticated_agents s1
             in Inr (greeting_reply (Welcome_back (name user_data) (city user_data)) s2, s2)
         | Inr None \<Rightarrow> Inr (greeting_reply Invalid_user_id s, s))
      else if looks_like_name_search user_input then
        (let nm = extract_name_from_input user_input
         in case greeting_search_users_by_name env nm of
              Inl e \<Rightarrow> Inl e
            | Inr [] \<Rightarrow> Inr (greeting_reply (No_users_found nm) s, s)
            | Inr [user] \<Rightarrow>
                Inr ((greeting_reply (Found_a_match (name user) (city user)) s)
                       \<lparr>suggested_user_id := Some (user_id user)\<rparr>, s)
            | Inr found \<Rightarrow> Inr (greeting_reply (Found_matches found nm) s, s))
      else Inr (greeting_reply Login_help s, s))"

definition handle_logout :: "session \<Rightarrow> reply \<times> session" where
  "handle_logout s =
     (let user_name = current_user_name s;
          s1 = s\<lparr>authenticated_user_id := None, current_user_name := None,
                 system_state := ''unauthenticated'',
                 cgm_agent := None, mood_tracker_agent := None,
                 food_intake_agent := None, meal_planner_agent := None\<rparr>
      in (greeting_reply (Goodbye user_name) s1, s1))"

definition route_authenticated_request ::
  "collaborators \<Rightarrow> session \<Rightarrow> string \<Rightarrow> exn + reply \<times> session" where
  "route_authenticated_request env s user_input =
     (let input_lower = lower user_input
      in if input_lower \<in> set [''help'', ''features'', ''what can you do'', ''options'']
           then Inr (\<lparr>response = System_features, agent_used = Some ''InterruptAgent'',
                      reply_state = system_state s, suggested_user_id = None\<rparr>, s)
         else if input_lower \<in> set [''logout'', ''sign out'', ''exit'']
           then Inr (handle_logout s)
         else
           let intent = detect_primary_intent user_input;
               handler =
                 (if intent = ''mood_tracking'' then handle_mood_tracking env
                  else if intent = ''cgm_monitoring'' then handle_cgm_monitoring env
                  else if intent = ''food_logging'' then handle_food_logging env
                  else if intent = ''meal_planning'' then handle_meal_planning env
                  else if intent = ''insights_request'' then handle_insights_request env
                  else handle_general_question env)
           in case handler s user_input of
                Inr r \<Rightarrow> Inr (r, s)
              | Inl (Exception e) \<Rightarrow>
                  Inr (\<lparr>response = Sorry_error e, agent_used = Some ''SystemError'',
                        reply_state = system_state s, suggested_user_id = None\<rparr>, s))"

definition process_user_input ::
  "collaborators \<Rightarrow> session \<Rightarrow> string \<Rightarrow> exn + reply \<times> session" where
  "process_user_input env s raw_input =
     (let user_input = strip raw_input
      in if user_input = [] then
           Inr (\<lparr>response = Please_enter_a_message, agent_used = None,
                 reply_state = system_state s, suggested_user_id = None\<rparr>, s)
         else if system_state s = ''unauthenticated'' then
           handle_authentication env s user_input
         else route_authenticated_request env s user_input)"


text \<open>A small storage used to run the handlers on concrete inputs: one user with
  Type 2 Diabetes, one with a condition outside the table, one with no condition.\<close>

definition example_db :: database where
  "example_db =
     \<lparr>users =
        [\<lparr>user_id = ''1001'', name = ''Ann Lee'', city = ''Oslo'',
          dietary_category = ''vegan'', medical_conditions = [''Type 2 Diabetes'']\<rparr>,
         \<lparr>user_id = ''1002'', name = ''Bo Chen'', city = ''Lima'',
          dietary_category = ''vegetarian'', medical_conditions = [''Hypertension'']\<rparr>,
         \<lparr>user_id = ''1003'', name = ''Cy Diaz'', city = ''Rome'',
          dietary_category = ''omnivore'', medical_conditions = []\<rparr>],
      mood_tracking = [], cgm_readings = [], cgm_alerts = [], agent_interactions = []\<rparr>"

text \<open>Collaborators for concrete runs: a storage that cannot be read (every lookup of
  the greeting agent raises) and handlers that raise.\<close>

definition failing_collaborators :: collaborators where
  "failing_collaborators =
     \<lparr>greeting_validate_user_id = (\<lambda>uid. Inl (Exception ''no such table: users'')),
      greeting_search_users_by_name = (\<lambda>nm. Inl (Exception ''no such table: users'')),
      handle_mood_tracking = (\<lambda>s t. Inl (Exception ''mood'')),
      handle_cgm_monitoring = (\<lambda>s t. Inl (Exception ''cgm'')),
      handle_food_logging = (\<lambda>s t. Inl (Exception ''food'')),
      handle_meal_planning = (\<lambda>s t. Inl (Exception ''plan'')),
      handle_insights_request = (\<lambda>s t. Inl (Exception ''insights'')),
      handle_general_question = (\<lambda>s t. Inl (Exception ''question''))\<rparr>"

definition logged_in_session :: session where
  "logged_in_session =
     \<lparr>authenticated_user_id = Some ''1001'', current_user_name = Some ''Ann Lee'',
      current_user_location = Some ''Oslo'', system_state = ''authenticated'',
      cgm_agent = Some \<lparr>agent_user = Some ''1001''\<rparr>,
      mood_tracker_agent = Some \<lparr>agent_user = Some ''1001''\<rparr>,
      food_intake_agent = Some \<lparr>agent_user = Some ''1001''\<rparr>,
      meal_planner_agent = Some \<lparr>agent_user = Some ''1001''\<rparr>,
      interrupt_agent_user = Some ''1001''\<rparr>"

definition example_clock :: clock where
  "example_clock =
     \<lparr>today = ''2026-11-04'', tomorrow = ''2026-11-05'', yesterday = ''2026-11-03''\<rparr>"


chapter \<open>Verified properties\<close>

section \<open>Glucose agent\<close>

lemma cgm_range_of_simps:
  "cgm_range_of ''Type 1 Diabetes''
     = \<lparr>min_bound = 80, max_bound = 250, target_min = 80, target_max = 180\<rparr>"
  "cgm_range_of ''Type 2 Diabetes''
     = \<lparr>min_bound = 90, max_bound = 220, target_min = 90, target_max = 180\<rparr>"
  "cgm_range_of ''Pre-diabetes''
     = \<lparr>min_bound = 85, max_bound = 180, target_min = 85, target_max = 140\<rparr>"
  "cgm_range_of ''None''
     = \<lparr>min_bound = 70, max_bound = 140, target_min = 70, target_max = 140\<rparr>"
  "cgm_range_of ''default''
     = \<lparr>min_bound = 70, max_bound = 180, target_min = 80, target_max = 140\<rparr>"
  by (simp_all add: cgm_range_of_def cgm_ranges_def)

lemma range_for_conditions_bounds:
  "70 \<le> target_min (range_for_conditions cs)
   \<and> target_min (range_for_conditions cs) \<le> target_max (range_for_conditions cs)
   \<and> target_max (range_for_conditions cs) \<le> 250"
  by (simp add: range_for_conditions_def cgm_range_of_simps)

lemma get_user_cgm_range_bounds:
  "70 \<le> target_min (get_user_cgm_range db uid)
   \<and> target_min (get_user_cgm_range db uid) \<le> target_max (get_user_cgm_range db uid)
   \<and> target_max (get_user_cgm_range db uid) \<le> 250"
  using range_for_conditions_bounds
  by (simp add: get_user_cgm_range_def cgm_range_of_simps split: option.split)

lemma process_glucose_reading_accepted:
  assumes "\<not> not_authenticated auth" and "20 \<le> r" and "r \<le> 600"
  shows "alert_type (fst (process_glucose_reading auth r db))
           = Some (alert_type_of (get_user_cgm_range db (the auth)) r)"
    and "status (fst (process_glucose_reading auth r db)) = ''success''"
    and "target_range (fst (process_glucose_reading auth r db))
           = Some (target_min (get_user_cgm_range db (the auth)),
                   target_max (get_user_cgm_range db (the auth)))"
  using assms by (simp_all add: process_glucose_reading_def Let_def)

text \<open>
  Claim C1.  An accepted reading (authenticated user, 20 to 600) gets its band from the
  target range of the user: under 70 is \<open>critical_low\<close>, from 70 and under the target
  minimum is \<open>low\<close>, inside the target range with both ends is \<open>normal\<close>, over the
  target maximum up to 250 is \<open>high\<close>, over 250 is \<open>critical_high\<close>.  The target range
  comes from the conditions of the user in the order Type 1 Diabetes, Type 2 Diabetes,
  Pre-diabetes, None (or no condition at all), and the default entry otherwise and for
  an unknown user.
\<close>

theorem glucose_severity_bands:
  fixes db :: database and auth :: "string option" and r :: real
  assumes auth: "\<not> not_authenticated auth" and lo: "20 \<le> r" and hi: "r \<le> 600"
  defines "rg \<equiv> get_user_cgm_range db (the auth)"
  defines "res \<equiv> fst (process_glucose_reading auth r db)"
  shows "(r < 70 \<longrightarrow> alert_type res = Some ''critical_low'')
       \<and> (70 \<le> r \<and> r < of_int (target_min rg) \<longrightarrow> alert_type res = Some ''low'')
       \<and> (of_int (target_min rg) \<le> r \<and> r \<le> of_int (target_max rg)
            \<longrightarrow> alert_type res = Some ''normal'')
       \<and> (of_int (target_max rg) < r \<and> r \<le> 250 \<longrightarrow> alert_type res = Some ''high'')
       \<and> (250 < r \<longrightarrow> alert_type res = Some ''critical_high'')
       \<and> target_range res = Some (target_min rg, target_max rg)
       \<and> rg = (case validate_user_id db (the auth) of
                  None \<Rightarrow> cgm_range_of ''default''
                | Some u \<Rightarrow>
                    if ''Type 1 Diabetes'' \<in> set (medical_conditions u)
                      then cgm_range_of ''Type 1 Diabetes''
                    else if ''Type 2 Diabetes'' \<in> set (medical_conditions u)
                      then cgm_range_of ''Type 2 Diabetes''
                    else if ''Pre-diabetes'' \<in> set (medical_conditions u)
                      then cgm_range_of ''Pre-diabetes''
                    else if ''None'' \<in> set (medical_conditions u) \<or> medical_conditions u = []
                      then cgm_range_of ''None''
                    else cgm_range_of ''default'')"
proof -
  have a: "alert_type res = Some (alert_type_of rg r)"
    unfolding res_def rg_def by (rule process_glucose_reading_accepted(1)[OF auth lo hi])
  have t: "target_range res = Some (target_min rg, target_max rg)"
    unfolding res_def rg_def by (rule process_glucose_reading_accepted(3)[OF auth lo hi])
  have b: "70 \<le> target_min rg" "target_min rg \<le> target_max rg" "target_max rg \<le> 250"
    unfolding rg_def using get_user_cgm_range_bounds[of db "the auth"] by simp_all
  have b': "(70::real) \<le> of_int (target_min rg)"
           "(of_int (target_min rg)::real) \<le> of_int (target_max rg)"
           "(of_int (target_max rg)::real) \<le> 250"
    using b by simp_all
  have 1: "r < 70 \<longrightarrow> alert_type res = Some ''critical_low''"
    using a b' by (simp add: alert_type_of_def)
  have 2: "70 \<le> r \<and> r < of_int (target_min rg) \<longrightarrow> alert_type res = Some ''low''"
    using a by (simp add: alert_type_of_def)
  have 3: "of_int (target_min rg) \<le> r \<and> r \<le> of_int (target_max rg)
            \<longrightarrow> alert_type res = Some ''normal''"
    using a by (simp add: alert_type_of_def)
  have 4: "of_int (target_max rg) < r \<and> r \<le> 250 \<longrightarrow> alert_type res = Some ''high''"
    using a b' by (auto simp add: alert_type_of_def)
  have 5: "250 < r \<longrightarrow> alert_type res = Some ''critical_high''"
    using a b' by (auto simp add: alert_type_of_def)
  have 6: "rg = (case validate_user_id db (the auth) of
                  None \<Rightarrow> cgm_range_of ''default''
                | Some u \<Rightarrow>
                    if ''Type 1 Diabetes'' \<in> set (medical_conditions u)
                      then cgm_range_of ''Type 1 Diabetes''
                    else if ''Type 2 Diabetes'' \<in> set (medical_conditions u)
                      then cgm_range_of ''Type 2 Diabetes''
                    else if ''Pre-diabetes'' \<in> set (medical_conditions u)
                      then cgm_range_of ''Pre-diabetes''
                    else if ''None'' \<in> set (medical_conditions u) \<or> medical_conditions u = []
                      then cgm_range_of ''None''
                    else cgm_range_of ''default'')"
    unfolding rg_def get_user_cgm_range_def range_for_conditions_def
    by (simp split: option.split)
  from 1 2 3 4 5 t 6 show ?thesis by blast
qed

lemma example_db_ranges:
  "get_user_cgm_range example_db ''1001'' = cgm_range_of ''Type 2 Diabetes''"
  "get_user_cgm_range example_db ''1002'' = cgm_range_of ''default''"
  "get_user_cgm_range example_db ''1003'' = cgm_range_of ''None''"
  "get_user_cgm_range example_db ''9999'' = cgm_range_of ''default''"
  by (simp_all add: get_user_cgm_range_def validate_user_id_def example_db_def
      range_for_conditions_def)

theorem glucose_severity_bands_witness:
  "alert_type (fst (process_glucose_reading (Some ''1001'') 50 example_db))
     = Some ''critical_low''
   \<and> alert_type (fst (process_glucose_reading (Some ''1001'') 85 example_db)) = Some ''low''
   \<and> alert_type (fst (process_glucose_reading (Some ''1001'') 90 example_db)) = Some ''normal''
   \<and> alert_type (fst (process_glucose_reading (Some ''1001'') 180 example_db)) = Some ''normal''
   \<and> alert_type (fst (process_glucose_reading (Some ''1001'') 250 example_db)) = Some ''high''
   \<and> alert_type (fst (process_glucose_reading (Some ''1001'') 251 example_db))
     = Some ''critical_high''
   \<and> target_range (fst (process_glucose_reading (Some ''1001'') 90 example_db))
     = Some (90, 180)"
  using glucose_severity_bands [of "Some ''1001''" 50 example_db]
        glucose_severity_bands [of "Some ''1001''" 85 example_db]
        glucose_severity_bands [of "Some ''1001''" 90 example_db]
        glucose_severity_bands [of "Some ''1001''" 180 example_db]
        glucose_severity_bands [of "Some ''1001''" 250 example_db]
        glucose_severity_bands [of "Some ''1001''" 251 example_db]
  by (simp add: not_authenticated_def example_db_ranges cgm_range_of_simps
      validate_user_id_def example_db_def)

text \<open>
  Claim C10.  For an authenticated user a reading under 20 or over 600 is answered with
  an error result carrying the invalid-reading message, and the storage is returned as
  it was: no reading, no alert and no interaction is written.
\<close>

theorem invalid_reading_rejected:
  assumes "\<not> not_authenticated auth" and "r < 20 \<or> r > 600"
  shows "process_glucose_reading auth r db = (error_result (Invalid_glucose_reading r), db)
       \<and> status (fst (process_glucose_reading auth r db)) = ''error''
       \<and> snd (process_glucose_reading auth r db) = db"
  using assms by (auto simp add: process_glucose_reading_def error_result_def)

theorem invalid_reading_rejected_witness:
  "process_glucose_reading (Some ''1001'') 19 example_db
     = (error_result (Invalid_glucose_reading 19), example_db)
   \<and> process_glucose_reading (Some ''1001'') 601 example_db
     = (error_result (Invalid_glucose_reading 601), example_db)"
  using invalid_reading_rejected [of "Some ''1001''" 19 example_db]
        invalid_reading_rejected [of "Some ''1001''" 601 example_db]
  by (simp add: not_authenticated_def)


section \<open>The matcher and the texts of a pattern\<close>

text \<open>The matcher is sound and complete for the texts of a pattern: what it leaves of
  the input are the rests after a text of the pattern, and a search finds the pattern
  exactly in the inputs that hold such a text.\<close>

lemma kleene_nonempty:
  assumes "w \<in> kleene A" and "w \<noteq> []"
  shows "\<exists>u v. w = u @ v \<and> u \<in> A \<and> u \<noteq> [] \<and> v \<in> kleene A"
  using assms
proof (induction rule: kleene.induct)
  case kleene_nil
  then show ?case by simp
next
  case (kleene_step u v)
  show ?case
  proof (cases "u = []")
    case True
    with kleene_step show ?thesis by simp
  next
    case False
    with kleene_step.hyps show ?thesis by blast
  qed
qed

lemma kleene_append:
  "u \<in> A \<Longrightarrow> v \<in> kleene A \<Longrightarrow> u @ v \<in> kleene A"
  by (rule kleene_step)

lemma rests_kleene:
  assumes a: "set ra = rests A s"
    and ih: "\<And>t. t \<in> set ra \<Longrightarrow> length t < length s \<Longrightarrow> set (f t) = rests (kleene A) t"
  shows "(\<Union>t \<in> set (filter (\<lambda>t. length t < length s) ra). set (f t)) \<union> {s}
           = rests (kleene A) s"
proof (intro set_eqI iffI)
  fix x
  assume "x \<in> (\<Union>t \<in> set (filter (\<lambda>t. length t < length s) ra). set (f t)) \<union> {s}"
  then consider "x = s" | t where "t \<in> set ra" "length t < length s" "x \<in> set (f t)"
    by auto
  then show "x \<in> rests (kleene A) s"
  proof cases
    case 1
    then show ?thesis using kleene_nil by (auto simp add: rests_def)
  next
    case 2
    from 2(1) a obtain u where u: "u \<in> A" "s = u @ t" by (auto simp add: rests_def)
    from ih [OF 2(1,2)] 2(3) obtain w where w: "w \<in> kleene A" "t = w @ x"
      by (auto simp add: rests_def)
    from u(1) w(1) have "u @ w \<in> kleene A" by (rule kleene_step)
    moreover have "s = (u @ w) @ x" using u(2) w(2) by simp
    ultimately show ?thesis unfolding rests_def by blast
  qed
next
  fix x
  assume "x \<in> rests (kleene A) s"
  then obtain w where w: "w \<in> kleene A" "s = w @ x" by (auto simp add: rests_def)
  show "x \<in> (\<Union>t \<in> set (filter (\<lambda>t. length t < length s) ra). set (f t)) \<union> {s}"
  proof (cases "w = []")
    case True
    with w show ?thesis by simp
  next
    case False
    from kleene_nonempty [OF w(1) False] obtain u v where
      uv: "w = u @ v" "u \<in> A" "u \<noteq> []" "v \<in> kleene A" by blast
    let ?t = "v @ x"
    have t: "?t \<in> set ra" using a uv(1,2) w(2) by (auto simp add: rests_def)
    have l: "length ?t < length s" using uv(1,3) w(2) by simp
    have "x \<in> set (f ?t)" using ih [OF t l] uv(4) by (auto simp add: rests_def)
    with t l show ?thesis by auto
  qed
qed

lemma rests_seq:
  "(\<Union>t \<in> rests A s. rests B t) = rests {u @ v | u v. u \<in> A \<and> v \<in> B} s"
proof (intro set_eqI iffI)
  fix x
  assume "x \<in> (\<Union>t \<in> rests A s. rests B t)"
  then obtain t u v where "u \<in> A" "s = u @ t" "v \<in> B" "t = v @ x"
    unfolding rests_def by blast
  then have "u @ v \<in> {u @ v | u v. u \<in> A \<and> v \<in> B}" "s = (u @ v) @ x" by auto
  then show "x \<in> rests {u @ v | u v. u \<in> A \<and> v \<in> B} s"
    unfolding rests_def by blast
next
  fix x
  assume "x \<in> rests {u @ v | u v. u \<in> A \<and> v \<in> B} s"
  then obtain u v where uv: "u \<in> A" "v \<in> B" "s = (u @ v) @ x"
    unfolding rests_def by blast
  then have "v @ x \<in> rests A s" "x \<in> rests B (v @ x)"
    unfolding rests_def by auto
  then show "x \<in> (\<Union>t \<in> rests A s. rests B t)" by blast
qed

lemma rests_atom_Nil: "rests {[c] | c. P c} [] = {}"
  by (auto simp add: rests_def)

lemma rests_atom_Cons: "rests {[c] | c. P c} (x # xs) = (if P x then {xs} else {})"
  by (auto simp add: rests_def)

lemma rests_eps: "rests {[]} s = {s}"
  by (auto simp add: rests_def)

lemma rests_union: "rests (A \<union> B) s = rests A s \<union> rests B s"
  by (auto simp add: rests_def)

lemma rxm_lang: "plain r \<Longrightarrow> set (rxm r s) = rests (lang r) s"
proof (induction r s rule: rxm.induct)
  case (1 s)
  show ?case by (simp add: rests_eps)
next
  case (2 s)
  then show ?case by simp
next
  case (3 a b s)
  from 3(3) have pa: "plain a" and pb: "plain b" by simp_all
  have a: "set (rxm a s) = rests (lang a) s" by (rule 3(1) [OF pa])
  have b: "set (rxm b t) = rests (lang b) t" if "t \<in> set (rxm a s)" for t
    by (rule 3(2) [OF that pb])
  have "set (rxm (Seq a b) s) = (\<Union>t \<in> set (rxm a s). set (rxm b t))"
    by (simp del: rxm.simps add: rxm.simps(3))
  also have "\<dots> = (\<Union>t \<in> set (rxm a s). rests (lang b) t)"
    by (rule SUP_cong [OF refl b])
  also have "\<dots> = (\<Union>t \<in> rests (lang a) s. rests (lang b) t)" by (simp only: a)
  also have "\<dots> = rests (lang (Seq a b)) s" by (simp only: rests_seq lang.simps)
  finally show ?case .
next
  case (4 a b s)
  from 4(3) have pa: "plain a" and pb: "plain b" by simp_all
  show ?case using 4(1) [OF pa] 4(2) [OF pb]
    by (simp del: rxm.simps add: rxm.simps(4) rests_union)
next
  case (5 a s)
  from 5(3) have pa: "plain a" by simp
  have a: "set (rxm a s) = rests (lang a) s" by (rule 5(1) [OF pa])
  have ih: "set (rxm (Star a) t) = rests (kleene (lang a)) t"
    if "t \<in> set (rxm a s)" "length t < length s" for t
    using 5(2) [of t] 5(3) that by (simp del: rxm.simps)
  have "set (rxm (Star a) s) =
          (\<Union>t \<in> set (filter (\<lambda>t. length t < length s) (rxm a s)). set (rxm (Star a) t))
          \<union> {s}"
    by (subst rxm.simps(5)) (simp del: rxm.simps)
  also have "\<dots> = rests (kleene (lang a)) s" by (rule rests_kleene [OF a ih])
  finally show ?case by (simp only: lang.simps)
next
  case (6 a s)
  from 6(3) have pa: "plain a" by simp
  have a: "set (rxm a s) = rests (lang a) s" by (rule 6(1) [OF pa])
  have ih: "set (rxm (LazyStar a) t) = rests (kleene (lang a)) t"
    if "t \<in> set (rxm a s)" "length t < length s" for t
    using 6(2) [of t] 6(3) that by (simp del: rxm.simps)
  have "set (rxm (LazyStar a) s) =
          (\<Union>t \<in> set (filter (\<lambda>t. length t < length s) (rxm a s)).
             set (rxm (LazyStar a) t)) \<union> {s}"
    by (subst rxm.simps(6)) (simp del: rxm.simps)
  also have "\<dots> = rests (kleene (lang a)) s" by (rule rests_kleene [OF a ih])
  finally show ?case by (simp only: lang.simps)
qed (simp_all add: rests_atom_Nil rests_atom_Cons del: accepts.simps)










section \<open>Intent classifier\<close>

lemma max_key_five:
  "max_key [(k1, a), (k2, b), (k3, c), (k4, d), (k5, e)] =
     (if b \<le> a \<and> c \<le> a \<and> d \<le> a \<and> e \<le> a then k1
      else if c \<le> b \<and> d \<le> b \<and> e \<le> b then k2
      else if d \<le> c \<and> e \<le> c then k3
      else if e \<le> d then k4 else k5)"
  by (auto simp add: max_key_def)

lemma max_value_five:
  "(0 < max_value [(k1, a), (k2, b), (k3, c), (k4, d), (k5, e)])
     = (0 < a \<or> 0 < b \<or> 0 < c \<or> 0 < d \<or> 0 < e)"
  by (auto simp add: max_value_def)

text \<open>
  Claim C5, as amended.  When one of the numeric glucose patterns is found in the
  lowered and stripped input, the classifier returns \<open>cgm_monitoring\<close> whatever the
  scores are.  On an input in which none of them is found, it returns
  \<open>general_question\<close> when the five scores are all zero; otherwise it returns a category
  whose score is the highest, and among several with the highest score the first in the
  order mood, glucose, food, meal planning, insights: a category is returned exactly
  when its score is greater than every earlier one and at least every later one.
\<close>

theorem intent_by_highest_score:
  fixes s :: string
  defines "il \<equiv> strip (lower s)"
  defines "m \<equiv> calculate_mood_score il" and "g \<equiv> calculate_cgm_score il"
    and "f \<equiv> calculate_food_score il" and "p \<equiv> calculate_planning_score il"
    and "n \<equiv> calculate_insights_score il"
  defines "r \<equiv> detect_primary_intent s"
  shows "(list_ex (\<lambda>pat. re_search pat il) cgm_values \<longrightarrow> r = ''cgm_monitoring'')
       \<and> (\<not> list_ex (\<lambda>pat. re_search pat il) cgm_values \<longrightarrow>
            (m = 0 \<and> g = 0 \<and> f = 0 \<and> p = 0 \<and> n = 0 \<longrightarrow> r = ''general_question'')
          \<and> (0 < m \<or> 0 < g \<or> 0 < f \<or> 0 < p \<or> 0 < n \<longrightarrow>
                (r = ''mood_tracking'' \<longleftrightarrow> g \<le> m \<and> f \<le> m \<and> p \<le> m \<and> n \<le> m)
              \<and> (r = ''cgm_monitoring'' \<longleftrightarrow> m < g \<and> f \<le> g \<and> p \<le> g \<and> n \<le> g)
              \<and> (r = ''food_logging'' \<longleftrightarrow> m < f \<and> g < f \<and> p \<le> f \<and> n \<le> f)
              \<and> (r = ''meal_planning'' \<longleftrightarrow> m < p \<and> g < p \<and> f < p \<and> n \<le> p)
              \<and> (r = ''insights_request'' \<longleftrightarrow> m < n \<and> g < n \<and> f < n \<and> p < n)))"
proof -
  have short: "r = ''cgm_monitoring''"
    if "list_ex (\<lambda>pat. re_search pat il) cgm_values"
    using that unfolding r_def detect_primary_intent_def Let_def il_def by simp
  have r: "r = (if 0 < m \<or> 0 < g \<or> 0 < f \<or> 0 < p \<or> 0 < n
                then (if g \<le> m \<and> f \<le> m \<and> p \<le> m \<and> n \<le> m then ''mood_tracking''
                      else if f \<le> g \<and> p \<le> g \<and> n \<le> g then ''cgm_monitoring''
                      else if p \<le> f \<and> n \<le> f then ''food_logging''
                      else if n \<le> p then ''meal_planning'' else ''insights_request'')
                else ''general_question'')"
    if "\<not> list_ex (\<lambda>pat. re_search pat il) cgm_values"
    using that
    unfolding r_def detect_primary_intent_def Let_def scores_def max_key_five max_value_five
      m_def g_def f_def p_def n_def il_def
    by simp
  have rest: "(m = 0 \<and> g = 0 \<and> f = 0 \<and> p = 0 \<and> n = 0 \<longrightarrow> r = ''general_question'')
          \<and> (0 < m \<or> 0 < g \<or> 0 < f \<or> 0 < p \<or> 0 < n \<longrightarrow>
                (r = ''mood_tracking'' \<longleftrightarrow> g \<le> m \<and> f \<le> m \<and> p \<le> m \<and> n \<le> m)
              \<and> (r = ''cgm_monitoring'' \<longleftrightarrow> m < g \<and> f \<le> g \<and> p \<le> g \<and> n \<le> g)
              \<and> (r = ''food_logging'' \<longleftrightarrow> m < f \<and> g < f \<and> p \<le> f \<and> n \<le> f)
              \<and> (r = ''meal_planning'' \<longleftrightarrow> m < p \<and> g < p \<and> f < p \<and> n \<le> p)
              \<and> (r = ''insights_request'' \<longleftrightarrow> m < n \<and> g < n \<and> f < n \<and> p < n))"
    if "\<not> list_ex (\<lambda>pat. re_search pat il) cgm_values"
    unfolding r [OF that] by (auto simp add: not_le)
  from short rest show ?thesis by blast
qed

text \<open>The claim as written, for every input, fails where a numeric glucose pattern is
  found: the glucose score of this input is zero and its mood score is seven.\<close>

theorem intent_by_highest_score_counterexample:
  "detect_primary_intent ''i feel sad 5 mg'' = ''cgm_monitoring''
   \<and> calculate_cgm_score (strip (lower ''i feel sad 5 mg''))
       < calculate_mood_score (strip (lower ''i feel sad 5 mg''))"
  by code_simp




lemma kleene_atoms:
  assumes "v \<in> kleene {[c] | c. P c}"
  shows "list_all P v"
  using assms by (induction rule: kleene.induct) auto



lemma in_lang_digits:
  assumes "x \<in> lang (plus Digit)"
  shows "\<exists>d ds. x = d # ds \<and> is_digit d \<and> list_all is_digit ds"
proof -
  from assms obtain a b where "x = a @ b" "a \<in> lang Digit" "b \<in> kleene (lang Digit)"
    by (auto simp add: plus_def)
  moreover then have "list_all is_digit b" using kleene_atoms [of b is_digit] by simp
  ultimately show ?thesis by auto
qed











section \<open>Lexical extractors and the score of a mood\<close>

lemma group_at_lang:
  assumes pre: "plain pre" and grp: "plain grp"
    and g: "group_at pre grp post s = Some g"
  shows "g \<in> lang grp \<and> (\<exists>a b. s = a @ g @ b)"
proof -
  let ?cands = "concat (map (\<lambda>s1. concat (map (\<lambda>s2.
              map (\<lambda>s3. take (length s1 - length s2) s1) (rxm post s2)) (rxm grp s1)))
            (rxm pre s))"
  from g have "g \<in> set ?cands"
    unfolding group_at_def by (cases ?cands) simp_all
  then obtain s1 s2 where s1: "s1 \<in> set (rxm pre s)" and s2: "s2 \<in> set (rxm grp s1)"
    and gg: "g = take (length s1 - length s2) s1"
    by auto
  from s1 rxm_lang [OF pre, of s] obtain a where a: "s = a @ s1"
    by (auto simp add: rests_def)
  from s2 rxm_lang [OF grp, of s1] obtain u where u: "u \<in> lang grp" "s1 = u @ s2"
    by (auto simp add: rests_def)
  from gg u(2) have "g = u" by simp
  with u a show ?thesis by auto
qed

lemma re_search_group_lang:
  assumes pre: "plain pre" and grp: "plain grp"
  shows "re_search_group pre grp post s = Some g
           \<Longrightarrow> g \<in> lang grp \<and> (\<exists>a b. s = a @ g @ b)"
proof (induction s)
  case Nil
  then have "group_at pre grp post [] = Some g" by simp
  from group_at_lang [OF pre grp this] show ?case .
next
  case (Cons c cs)
  show ?case
  proof (cases "group_at pre grp post (c # cs)")
    case (Some h)
    with Cons.prems have "group_at pre grp post (c # cs) = Some g" by simp
    from group_at_lang [OF pre grp this] show ?thesis .
  next
    case None
    with Cons.prems have "re_search_group pre grp post cs = Some g" by simp
    from Cons.IH [OF this] obtain a b where "g \<in> lang grp" "cs = a @ g @ b" by blast
    then have "g \<in> lang grp" "c # cs = (c # a) @ g @ b" by simp_all
    then show ?thesis by blast
  qed
qed

lemma number_shape:
  assumes "g \<in> lang rx_number"
  shows "\<exists>d ds. g = d # ds \<and> is_digit d"
    and "\<exists>v. 0 \<le> v \<and> py_float g = Some v"
proof -
  from assms obtain x y where xy: "g = x @ y" "x \<in> lang (plus Digit)"
    "y \<in> lang (opt (Seq (Chr CHR ''.'') (plus Digit)))"
    by (auto simp add: rx_number_def)
  from in_lang_digits [OF xy(2)] obtain d ds where
    d: "x = d # ds" "is_digit d" "list_all is_digit ds" by blast
  then have allx: "\<forall>c \<in> set x. is_digit c" by (auto simp add: list_all_iff)
  show "\<exists>d ds. g = d # ds \<and> is_digit d" using xy(1) d by simp
  from xy(3) consider "y = []" | f where "y = CHR ''.'' # f" "f \<in> lang (plus Digit)"
    by (auto simp add: opt_def)
  then show "\<exists>v. 0 \<le> v \<and> py_float g = Some v"
  proof cases
    case 1
    with xy(1) allx d(1) have h: "takeWhile is_digit g = g" "dropWhile is_digit g = []"
      "g \<noteq> []"
      by (simp_all add: takeWhile_eq_all_conv dropWhile_eq_Nil_conv)
    show ?thesis by (simp add: py_float_def Let_def h)
  next
    case 2
    from in_lang_digits [OF 2(2)] obtain e es where
      e: "f = e # es" "is_digit e" "list_all is_digit es" by blast
    have nd: "\<not> is_digit CHR ''.''" by (simp add: is_digit_def)
    have tw: "takeWhile is_digit g = x" "dropWhile is_digit g = CHR ''.'' # f"
      using xy(1) 2(1) allx nd by (simp_all add: takeWhile_append2 dropWhile_append2)
    have "list_all is_digit f" "f \<noteq> []" using e by simp_all
    with tw d(1) show ?thesis by (simp add: py_float_def Let_def)
  qed
qed

lemma group_needs_digit:
  assumes "plain pre" and "re_search_group pre rx_number post t = Some g"
  shows "list_ex is_digit t"
proof -
  have "plain rx_number" by (simp add: rx_number_def plus_def opt_def)
  from re_search_group_lang [OF assms(1) this assms(2)]
  obtain a b where "g \<in> lang rx_number" "t = a @ g @ b" by blast
  with number_shape(1) [of g] show ?thesis by (auto simp add: list_ex_iff)
qed

lemma bare_number_found:
  assumes "list_ex is_digit t"
  shows "re_search_group Eps rx_number Eps t \<noteq> None"
  using assms
proof (induction t)
  case Nil
  then show ?case by simp
next
  case (Cons c cs)
  show ?case
  proof (cases "is_digit c")
    case True
    have pl: "plain rx_number" by (simp add: rx_number_def plus_def opt_def)
    have "[c] \<in> lang rx_number"
    proof -
      have "[c] \<in> lang Digit" "[] \<in> kleene (lang Digit)"
        using True kleene_nil by simp_all
      then have "[c] @ [] \<in> {u @ v | u v. u \<in> lang Digit \<and> v \<in> kleene (lang Digit)}"
        by blast
      then have a: "[c] \<in> lang (plus Digit)" by (simp add: plus_def)
      have b: "[] \<in> lang (opt (Seq (Chr CHR ''.'') (plus Digit)))" by (simp add: opt_def)
      from a b have "[c] @ [] \<in> {u @ v | u v. u \<in> lang (plus Digit)
               \<and> v \<in> lang (opt (Seq (Chr CHR ''.'') (plus Digit)))}"
        by blast
      then show ?thesis by (simp add: rx_number_def)
    qed
    then have "cs \<in> rests (lang rx_number) (c # cs)" by (auto simp add: rests_def)
    with rxm_lang [OF pl, of "c # cs"] have "rxm rx_number (c # cs) \<noteq> []" by auto
    then obtain s2 rest where "rxm rx_number (c # cs) = s2 # rest"
      by (cases "rxm rx_number (c # cs)") auto
    then have "group_at Eps rx_number Eps (c # cs) \<noteq> None"
      by (simp add: group_at_def del: rxm.simps add: rxm.simps(1))
    then show ?thesis by auto
  next
    case False
    with Cons have "re_search_group Eps rx_number Eps cs \<noteq> None" by simp
    then show ?thesis by (auto split: option.split)
  qed
qed

lemma first_reading_none:
  assumes "\<not> list_ex is_digit t" and "\<forall>(pre, post) \<in> set ps. plain pre"
  shows "first_reading ps t = None"
  using assms(2)
proof (induction ps)
  case Nil
  show ?case by simp
next
  case (Cons a ps)
  obtain pre post where a: "a = (pre, post)" by (cases a)
  with Cons.prems have "plain pre" by simp
  with group_needs_digit [OF this] assms(1)
  have "re_search_group pre rx_number post t = None" by (cases "re_search_group pre rx_number post t") auto
  with Cons a show ?case by simp
qed

lemma first_reading_some:
  assumes d: "list_ex is_digit t" and pl: "\<forall>(pre, post) \<in> set ps. plain pre"
  shows "\<exists>v. 0 \<le> v \<and> first_reading (ps @ [(Eps, Eps)]) t = Some v"
  using pl
proof (induction ps)
  case Nil
  have pn: "plain rx_number" by (simp add: rx_number_def plus_def opt_def)
  from bare_number_found [OF d] obtain g where g: "re_search_group Eps rx_number Eps t = Some g"
    by auto
  from re_search_group_lang [OF _ pn g] have "g \<in> lang rx_number" by simp
  from number_shape(2) [OF this] g show ?case by auto
next
  case (Cons a ps)
  obtain pre post where a: "a = (pre, post)" by (cases a)
  with Cons.prems have pp: "plain pre" by simp
  have pn: "plain rx_number" by (simp add: rx_number_def plus_def opt_def)
  from Cons have ih: "\<exists>v. 0 \<le> v \<and> first_reading (ps @ [(Eps, Eps)]) t = Some v" by simp
  show ?case
  proof (cases "re_search_group pre rx_number post t")
    case None
    with ih a show ?thesis by simp
  next
    case (Some g)
    from re_search_group_lang [OF pp pn Some] have "g \<in> lang rx_number" by simp
    from number_shape(2) [OF this] Some a show ?thesis by auto
  qed
qed

lemma lower_digit: "list_ex is_digit (lower t) = list_ex is_digit t"
proof -
  have "is_digit (lower_char c) = is_digit c" for c
  proof (cases "is_upper c")
    case True
    then have "of_char (char_of (of_char c + (32::nat))) = (of_char c + 32 :: nat)"
      by (simp add: is_upper_def)
    with True show ?thesis by (auto simp add: lower_char_def is_digit_def is_upper_def)
  next
    case False
    then show ?thesis by (simp add: lower_char_def)
  qed
  then show ?thesis by (simp add: lower_def list_ex_iff)
qed

lemma extract_glucose_reading_total:
  "(extract_glucose_reading t = None \<longleftrightarrow> \<not> list_ex is_digit t)
   \<and> (\<forall>v. extract_glucose_reading t = Some v \<longrightarrow> 0 \<le> v)"
proof -
  have gp: "glucose_patterns =
     [(Eps, Seq (Star Space) (alts [''mg/dl'', ''mg'', ''glucose'', ''reading''])),
      (Seq (lit ''glucose'') (LazyStar Dot), Eps),
      (Seq (lit ''reading'') (LazyStar Dot), Eps),
      (Seq (lit ''sugar'') (LazyStar Dot), Eps)] @ [(Eps, Eps)]"
    by (simp add: glucose_patterns_def)
  have pl: "\<forall>(pre, post) \<in> set
     [(Eps, Seq (Star Space) (alts [''mg/dl'', ''mg'', ''glucose'', ''reading''])),
      (Seq (lit ''glucose'') (LazyStar Dot), Eps),
      (Seq (lit ''reading'') (LazyStar Dot), Eps),
      (Seq (lit ''sugar'') (LazyStar Dot), Eps)]. plain pre"
    by simp
  have pl': "\<forall>(pre, post) \<in> set glucose_patterns. plain pre"
    by (simp add: glucose_patterns_def)
  show ?thesis
  proof (cases "list_ex is_digit t")
    case True
    then have "list_ex is_digit (lower t)" by (simp add: lower_digit)
    from first_reading_some [OF this pl] show ?thesis
      unfolding extract_glucose_reading_def gp using True by auto
  next
    case False
    then have "\<not> list_ex is_digit (lower t)" by (simp add: lower_digit)
    from first_reading_none [OF this pl'] show ?thesis
      unfolding extract_glucose_reading_def using False by simp
  qed
qed

lemma mood_scores_range:
  assumes "map_of mood_scores k = Some v"
  shows "1 \<le> v \<and> v \<le> 10"
proof -
  from assms have "(k, v) \<in> set mood_scores" by (rule map_of_SomeD)
  then show ?thesis by (auto simp add: mood_scores_def)
qed

lemma fuzzy_mood_score_range: "1 \<le> fuzzy_mood_score m \<and> fuzzy_mood_score m \<le> 10"
  by (simp add: fuzzy_mood_score_def)

lemma convert_mood_to_score_range:
  "1 \<le> convert_mood_to_score l \<and> convert_mood_to_score l \<le> 10"
  using mood_scores_range fuzzy_mood_score_range
  by (simp add: convert_mood_to_score_def Let_def split: option.split)

lemma fuzzy_mood_score_default:
  assumes "\<not> any_in [''terrible'', ''awful'', ''horrible'', ''worst'',
                     ''very sad'', ''depressed'', ''miserable'', ''devastated'',
                     ''sad'', ''down'', ''low'', ''blue'', ''upset'',
                     ''tired'', ''sluggish'', ''drained'', ''exhausted'', ''weary'',
                     ''good'', ''decent'', ''alright'', ''better'',
                     ''happy'', ''positive'', ''cheerful'', ''content'',
                     ''great'', ''wonderful'', ''fantastic'', ''awesome'',
                     ''excited'', ''amazing'', ''thrilled'', ''energetic'',
                     ''ecstatic'', ''overjoyed'', ''blissful'', ''euphoric''] m"
  shows "fuzzy_mood_score m = 5"
  using assms by (simp add: fuzzy_mood_score_def any_in_def)

lemma extract_simple_mood_label_range:
  "extract_simple_mood_label t \<in> set [''terrible'', ''depressed'', ''sad'', ''tired'',
     ''bad'', ''ecstatic'', ''excited'', ''great'', ''happy'', ''good'', ''okay'', ''down'',
     ''neutral'']"
  by (simp add: extract_simple_mood_label_def Let_def)

lemma strip_prefix_shape: "\<exists>n. strip_prefix ps t = strip (drop n t)"
proof (induction ps)
  case Nil
  have "strip_prefix [] t = strip (drop 0 t)" by simp
  then show ?case by blast
next
  case (Cons p ps)
  then show ?case by auto
qed

lemma strip_prefix_none:
  "\<not> list_ex (startswith (lower t)) ps \<Longrightarrow> strip_prefix ps t = strip t"
  by (induction ps) simp_all

lemma first_name_none:
  "\<forall>pre \<in> set ps. re_search_group pre (plus Dot) Eps (lower t) = None
     \<Longrightarrow> first_name ps t = strip t"
  by (induction ps) simp_all

lemma date_starts_with_digit:
  assumes "p \<in> set date_patterns" and "g \<in> lang p"
  shows "\<exists>d ds. g = d # ds \<and> is_digit d"
  using assms by (auto simp add: date_patterns_def eval_nat_numeral)

lemma date_patterns_plain: "p \<in> set date_patterns \<Longrightarrow> plain p"
  by (auto simp add: date_patterns_def eval_nat_numeral opt_def)

lemma first_date_none:
  assumes "\<not> list_ex is_digit t" and "set ps \<subseteq> set date_patterns"
  shows "first_date ps t = None"
  using assms(2)
proof (induction ps)
  case Nil
  show ?case by simp
next
  case (Cons p ps)
  then have p: "p \<in> set date_patterns" by simp
  have "re_search_group Eps p Eps t = None"
  proof (cases "re_search_group Eps p Eps t")
    case None
    then show ?thesis .
  next
    case (Some g)
    from re_search_group_lang [OF _ date_patterns_plain [OF p] Some]
    obtain a b where "g \<in> lang p" "t = a @ g @ b" by auto
    with date_starts_with_digit [OF p, of g] have "list_ex is_digit t"
      by (auto simp add: list_ex_iff)
    with assms(1) show ?thesis by simp
  qed
  with Cons show ?case by simp
qed

text \<open>
  Claim C6.  The score of a mood label is an integer from 1 to 10 for every text, and it
  is 5 when the label is no key of the table and holds no word of the nine tiers.  Every
  extractor is a function with a value for every text, and what the source can raise
  inside it (the conversion to a float, the unpacking of a date) is caught there:
  the label of a mood is one of thirteen fixed labels; the mood text and the meal
  description are the stripped input with a prefix cut off, the meal description being
  the stripped input itself when no prefix fits; the glucose reading is null exactly when
  the text holds no digit, is never negative, and the conversion of a group that a
  pattern found never fails; the date is null when the text holds no digit and none of
  the three relative words; the name is the stripped input when no pattern of a name is
  found.
\<close>

theorem extractors_total:
  "1 \<le> convert_mood_to_score l \<and> convert_mood_to_score l \<le> 10
   \<and> (map_of mood_scores (strip (lower l)) = None
      \<and> \<not> any_in [''terrible'', ''awful'', ''horrible'', ''worst'',
                   ''very sad'', ''depressed'', ''miserable'', ''devastated'',
                   ''sad'', ''down'', ''low'', ''blue'', ''upset'',
                   ''tired'', ''sluggish'', ''drained'', ''exhausted'', ''weary'',
                   ''good'', ''decent'', ''alright'', ''better'',
                   ''happy'', ''positive'', ''cheerful'', ''content'',
                   ''great'', ''wonderful'', ''fantastic'', ''awesome'',
                   ''excited'', ''amazing'', ''thrilled'', ''energetic'',
                   ''ecstatic'', ''overjoyed'', ''blissful'', ''euphoric''] (strip (lower l))
      \<longrightarrow> convert_mood_to_score l = 5)
   \<and> extract_simple_mood_label t \<in> set [''terrible'', ''depressed'', ''sad'', ''tired'',
        ''bad'', ''ecstatic'', ''excited'', ''great'', ''happy'', ''good'', ''okay'', ''down'',
        ''neutral'']
   \<and> (\<exists>n. extract_mood_from_input t = strip (drop n t))
   \<and> (extract_glucose_reading t = None \<longleftrightarrow> \<not> list_ex is_digit t)
   \<and> (\<forall>v. extract_glucose_reading t = Some v \<longrightarrow> 0 \<le> v)
   \<and> (\<exists>n. extract_meal_description t = strip (drop n t))
   \<and> (\<not> list_ex (startswith (lower t))
          [''i ate'', ''i had'', ''just ate'', ''just had'', ''meal:'', ''food:'',
           ''consumed'', ''eaten'', ''my meal was'', ''for lunch i had'',
           ''for dinner i had'', ''for breakfast i had'']
      \<longrightarrow> extract_meal_description t = strip t)
   \<and> (\<not> list_ex is_digit t \<and> \<not> contains ''today'' (lower t)
      \<and> \<not> contains ''tomorrow'' (lower t) \<and> \<not> contains ''yesterday'' (lower t)
      \<longrightarrow> extract_date_from_input now t = None)
   \<and> ((\<forall>pre \<in> set name_patterns. re_search_group pre (plus Dot) Eps (lower t) = None)
      \<longrightarrow> extract_name_from_input t = strip t)
   \<and> (\<forall>(pre, post) \<in> set glucose_patterns. \<forall>g.
        re_search_group pre rx_number post (lower t) = Some g \<longrightarrow> py_float g \<noteq> None)"
proof -
  have 1: "1 \<le> convert_mood_to_score l \<and> convert_mood_to_score l \<le> 10"
    by (rule convert_mood_to_score_range)
  have 2: "map_of mood_scores (strip (lower l)) = None
      \<and> \<not> any_in [''terrible'', ''awful'', ''horrible'', ''worst'',
                   ''very sad'', ''depressed'', ''miserable'', ''devastated'',
                   ''sad'', ''down'', ''low'', ''blue'', ''upset'',
                   ''tired'', ''sluggish'', ''drained'', ''exhausted'', ''weary'',
                   ''good'', ''decent'', ''alright'', ''better'',
                   ''happy'', ''positive'', ''cheerful'', ''content'',
                   ''great'', ''wonderful'', ''fantastic'', ''awesome'',
                   ''excited'', ''amazing'', ''thrilled'', ''energetic'',
                   ''ecstatic'', ''overjoyed'', ''blissful'', ''euphoric''] (strip (lower l))
      \<longrightarrow> convert_mood_to_score l = 5"
    using fuzzy_mood_score_default [of "strip (lower l)"]
    by (simp add: convert_mood_to_score_def Let_def)
  have 3: "extract_simple_mood_label t \<in> set [''terrible'', ''depressed'', ''sad'', ''tired'',
        ''bad'', ''ecstatic'', ''excited'', ''great'', ''happy'', ''good'', ''okay'', ''down'',
        ''neutral'']"
    by (rule extract_simple_mood_label_range)
  have 4: "\<exists>n. extract_mood_from_input t = strip (drop n t)"
    unfolding extract_mood_from_input_def by (rule strip_prefix_shape)
  have 5: "(extract_glucose_reading t = None \<longleftrightarrow> \<not> list_ex is_digit t)
           \<and> (\<forall>v. extract_glucose_reading t = Some v \<longrightarrow> 0 \<le> v)"
    by (rule extract_glucose_reading_total)
  have 6: "\<exists>n. extract_meal_description t = strip (drop n t)"
    unfolding extract_meal_description_def by (rule strip_prefix_shape)
  have 7: "\<not> list_ex (startswith (lower t))
          [''i ate'', ''i had'', ''just ate'', ''just had'', ''meal:'', ''food:'',
           ''consumed'', ''eaten'', ''my meal was'', ''for lunch i had'',
           ''for dinner i had'', ''for breakfast i had'']
      \<longrightarrow> extract_meal_description t = strip t"
    unfolding extract_meal_description_def using strip_prefix_none by blast
  have 8: "\<not> list_ex is_digit t \<and> \<not> contains ''today'' (lower t)
      \<and> \<not> contains ''tomorrow'' (lower t) \<and> \<not> contains ''yesterday'' (lower t)
      \<longrightarrow> extract_date_from_input now t = None"
    using first_date_none [of t date_patterns]
    by (simp add: extract_date_from_input_def Let_def)
  have 9: "(\<forall>pre \<in> set name_patterns. re_search_group pre (plus Dot) Eps (lower t) = None)
      \<longrightarrow> extract_name_from_input t = strip t"
    unfolding extract_name_from_input_def using first_name_none by blast
  have 10: "\<forall>(pre, post) \<in> set glucose_patterns. \<forall>g.
        re_search_group pre rx_number post (lower t) = Some g \<longrightarrow> py_float g \<noteq> None"
  proof (intro ballI, clarify)
    fix pre post g
    assume p: "(pre, post) \<in> set glucose_patterns"
      and g: "re_search_group pre rx_number post (lower t) = Some g"
    from p have pp: "plain pre" by (auto simp add: glucose_patterns_def)
    have pn: "plain rx_number" by (simp add: rx_number_def plus_def opt_def)
    from re_search_group_lang [OF pp pn g] have "g \<in> lang rx_number" by simp
    from number_shape(2) [OF this] show "\<exists>v. py_float g = Some v" by blast
  qed
  from 1 2 3 4 5 6 7 8 9 10 show ?thesis by blast
qed


section \<open>Session and turn dispatch\<close>

lemma digit_facts:
  assumes "is_digit c"
  shows "lower_char c = c" "\<not> is_space c" "accepts Digit c"
    "c \<noteq> CHR ''m''" "c \<noteq> CHR ''i''" "c \<noteq> CHR ''n''" "c \<noteq> CHR ''c''"
  using assms by (auto simp add: is_digit_def lower_char_def is_upper_def is_space_def)

text \<open>
  Claim C8.  An input whose stripped text is four digits passes the test of the shape
  of a user id, holds none of the phrases of a name search, and in the unauthenticated
  state is answered by the branch of the user id: the lookup of the id by the greeting
  agent decides the reply, and the search by name is not used.
\<close>

theorem four_digits_look_like_user_id:
  assumes four: "strip raw = [a, b, c, d]"
    and digits: "is_digit a" "is_digit b" "is_digit c" "is_digit d"
  shows "looks_like_user_id (strip raw)
       \<and> \<not> looks_like_name_search (strip raw)
       \<and> (system_state s = ''unauthenticated'' \<longrightarrow>
            process_user_input env s raw =
              (case greeting_validate_user_id env (strip raw) of
                 Inl e \<Rightarrow> Inl e
               | Inr None \<Rightarrow> Inr (greeting_reply Invalid_user_id s, s)
               | Inr (Some u) \<Rightarrow>
                   (let s2 = initialize_authenticated_agents
                               (s\<lparr>authenticated_user_id := Some (strip raw),
                                  current_user_name := Some (name u),
                                  current_user_location := Some (city u),
                                  system_state := ''authenticated''\<rparr>)
                    in Inr (greeting_reply (Welcome_back (name u) (city u)) s2, s2))))"
proof -
  have id: "looks_like_user_id (strip raw)"
    using digits
    by (simp add: four looks_like_user_id_def rx_four_digits_def re_match_def
        eval_nat_numeral at_end_def digit_facts)
  have nm: "\<not> looks_like_name_search (strip raw)"
    using digits
    by (simp add: four looks_like_name_search_def any_in_def lower_def digit_facts)
  have pr: "system_state s = ''unauthenticated'' \<longrightarrow>
            process_user_input env s raw =
              (case greeting_validate_user_id env (strip raw) of
                 Inl e \<Rightarrow> Inl e
               | Inr None \<Rightarrow> Inr (greeting_reply Invalid_user_id s, s)
               | Inr (Some u) \<Rightarrow>
                   (let s2 = initialize_authenticated_agents
                               (s\<lparr>authenticated_user_id := Some (strip raw),
                                  current_user_name := Some (name u),
                                  current_user_location := Some (city u),
                                  system_state := ''authenticated''\<rparr>)
                    in Inr (greeting_reply (Welcome_back (name u) (city u)) s2, s2)))"
    using id
    by (auto simp add: process_user_input_def handle_authentication_def Let_def four
        split: sum.split option.split)
  from id nm pr show ?thesis by blast
qed

lemma caught_is_reply:
  "\<exists>r. (case x of Inr r \<Rightarrow> Inr (r, s) | Inl (Exception e) \<Rightarrow> Inr (f e, s)) = Inr (r, s)"
  by (cases x) (auto split: exn.split)

lemma route_authenticated_request_returns:
  "\<exists>r s'. route_authenticated_request env s u = Inr (r, s')"
proof (cases "lower u \<in> set [''help'', ''features'', ''what can you do'', ''options'']")
  case True
  then show ?thesis by (simp add: route_authenticated_request_def)
next
  case nohelp: False
  show ?thesis
  proof (cases "lower u \<in> set [''logout'', ''sign out'', ''exit'']")
    case True
    with nohelp show ?thesis
      by (simp add: route_authenticated_request_def handle_logout_def Let_def)
  next
    case False
    define x where "x =
      (if detect_primary_intent u = ''mood_tracking'' then handle_mood_tracking env
       else if detect_primary_intent u = ''cgm_monitoring'' then handle_cgm_monitoring env
       else if detect_primary_intent u = ''food_logging'' then handle_food_logging env
       else if detect_primary_intent u = ''meal_planning'' then handle_meal_planning env
       else if detect_primary_intent u = ''insights_request''
         then handle_insights_request env
       else handle_general_question env) s u"
    have "\<exists>r. (case x of Inr r \<Rightarrow> Inr (r, s)
               | Inl (Exception e) \<Rightarrow>
                   Inr (\<lparr>response = Sorry_error e, agent_used = Some ''SystemError'',
                         reply_state = system_state s, suggested_user_id = None\<rparr>, s))
             = (Inr (r, s) :: exn + reply \<times> session)"
      by (rule caught_is_reply)
    then obtain r where r:
      "(case x of Inr r \<Rightarrow> Inr (r, s)
        | Inl (Exception e) \<Rightarrow>
            Inr (\<lparr>response = Sorry_error e, agent_used = Some ''SystemError'',
                  reply_state = system_state s, suggested_user_id = None\<rparr>, s))
       = (Inr (r, s) :: exn + reply \<times> session)" ..
    have eq: "route_authenticated_request env s u =
      (case x of Inr r \<Rightarrow> Inr (r, s)
        | Inl (Exception e) \<Rightarrow>
            Inr (\<lparr>response = Sorry_error e, agent_used = Some ''SystemError'',
                  reply_state = system_state s, suggested_user_id = None\<rparr>, s))"
      using nohelp False
      unfolding route_authenticated_request_def Let_def x_def by (simp only: if_False)
    have "route_authenticated_request env s u = Inr (r, s)"
      unfolding eq by (rule r)
    then show ?thesis by blast
  qed
qed

text \<open>
  The catch of \<^verbatim>\<open>_route_authenticated_request\<close>.  In a state other than
  \<open>unauthenticated\<close> every turn returns a reply; on an input that is no command the
  turn is the call of the handler that the intent of the input selects, and an exception
  of that handler becomes the reply of the agent \<open>SystemError\<close> with the text of the
  exception, the session staying as it was.
\<close>

lemma authenticated_turn_returns:
  assumes "system_state s \<noteq> ''unauthenticated''"
  shows "\<exists>r s'. process_user_input env s raw = Inr (r, s')"
  using assms route_authenticated_request_returns [of env s "strip raw"]
  by (simp add: process_user_input_def Let_def)

lemma authenticated_turn_dispatch:
  assumes state: "system_state s \<noteq> ''unauthenticated''"
    and nonempty: "strip raw \<noteq> []"
    and nocommand: "lower (strip raw) \<notin> set [''help'', ''features'', ''what can you do'',
                     ''options'', ''logout'', ''sign out'', ''exit'']"
  shows "process_user_input env s raw =
     (case (if detect_primary_intent (strip raw) = ''mood_tracking''
              then handle_mood_tracking env
            else if detect_primary_intent (strip raw) = ''cgm_monitoring''
              then handle_cgm_monitoring env
            else if detect_primary_intent (strip raw) = ''food_logging''
              then handle_food_logging env
            else if detect_primary_intent (strip raw) = ''meal_planning''
              then handle_meal_planning env
            else if detect_primary_intent (strip raw) = ''insights_request''
              then handle_insights_request env
            else handle_general_question env) s (strip raw) of
        Inr r \<Rightarrow> Inr (r, s)
      | Inl (Exception e) \<Rightarrow>
          Inr (\<lparr>response = Sorry_error e, agent_used = Some ''SystemError'',
                reply_state = system_state s, suggested_user_id = None\<rparr>, s))"
proof -
  have 1: "process_user_input env s raw = route_authenticated_request env s (strip raw)"
    using state nonempty by (simp add: process_user_input_def Let_def)
  have c: "lower (strip raw) \<notin> set [''help'', ''features'', ''what can you do'', ''options'']"
          "lower (strip raw) \<notin> set [''logout'', ''sign out'', ''exit'']"
    using nocommand by simp_all
  show ?thesis
    unfolding 1 route_authenticated_request_def Let_def
    by (simp only: c if_False)
qed

text \<open>
  Claim C9, at the input where the code leaves it.  The session is unauthenticated and the
  lookup of the greeting agent raises (the storage has no table of users).  For the
  input \<open>1234\<close>, which has the shape of a user id, and for the input
  \<open>my name is jane\<close>, which is a search by name, the turn does not return a reply: its
  result is the exception itself, since neither \<^verbatim>\<open>process_user_input\<close> nor
  \<^verbatim>\<open>_handle_authentication\<close> has the \<^verbatim>\<open>try\<close> that \<^verbatim>\<open>_route_authenticated_request\<close>
  has.
\<close>

theorem unauthenticated_turn_raises:
  "system_state initial_session = ''unauthenticated''
   \<and> process_user_input failing_collaborators initial_session ''1234''
       = Inl (Exception ''no such table: users'')
   \<and> process_user_input failing_collaborators initial_session ''my name is jane''
       = Inl (Exception ''no such table: users'')"
proof -
  have 1: "process_user_input failing_collaborators initial_session ''1234''
             = Inl (Exception ''no such table: users'')"
    by (simp add: process_user_input_def handle_authentication_def initial_session_def
        failing_collaborators_def strip_def lstrip_def rstrip_def is_space_def
        looks_like_user_id_def rx_four_digits_def re_match_def eval_nat_numeral at_end_def
        is_digit_def)
  have s: "strip ''my name is jane'' = ''my name is jane''"
    by (simp add: strip_def lstrip_def rstrip_def is_space_def)
  have i: "\<not> looks_like_user_id ''my name is jane''"
    by code_simp
  have n: "looks_like_name_search ''my name is jane''"
    by code_simp
  have 2: "process_user_input failing_collaborators initial_session ''my name is jane''
             = Inl (Exception ''no such table: users'')"
    by (simp add: process_user_input_def s i n handle_authentication_def Let_def
        initial_session_def failing_collaborators_def)
  show ?thesis using 1 2 by (simp add: initial_session_def)
qed




section \<open>Scenarios and concrete runs\<close>

theorem intent_by_highest_score_witness:
  "detect_primary_intent ''I ate rice today'' = ''food_logging''
   \<and> detect_primary_intent ''hello there'' = ''general_question''
   \<and> calculate_mood_score ''mood check test'' = calculate_cgm_score ''mood check test''
   \<and> detect_primary_intent ''mood check test'' = ''mood_tracking''
   \<and> calculate_cgm_score ''check rice'' = calculate_food_score ''check rice''
   \<and> detect_primary_intent ''check rice'' = ''cgm_monitoring''
   \<and> list_ex (\<lambda>pat. re_search pat ''i feel sad about my reading 5'') cgm_values
   \<and> calculate_cgm_score ''i feel sad about my reading 5''
       < calculate_mood_score ''i feel sad about my reading 5''
   \<and> detect_primary_intent ''i feel sad about my reading 5'' = ''cgm_monitoring''"
proof -
  have st: "strip (lower ''I ate rice today'') = ''i ate rice today''"
           "strip (lower ''hello there'') = ''hello there''"
           "strip (lower ''mood check test'') = ''mood check test''"
           "strip (lower ''check rice'') = ''check rice''"
           "strip (lower ''i feel sad about my reading 5'') = ''i feel sad about my reading 5''"
    by code_simp+
  have h: "\<not> list_ex (\<lambda>pat. re_search pat ''i ate rice today'') cgm_values"
          "\<not> list_ex (\<lambda>pat. re_search pat ''hello there'') cgm_values"
          "\<not> list_ex (\<lambda>pat. re_search pat ''mood check test'') cgm_values"
          "\<not> list_ex (\<lambda>pat. re_search pat ''check rice'') cgm_values"
          "list_ex (\<lambda>pat. re_search pat ''i feel sad about my reading 5'') cgm_values"
    by code_simp+
  have s1: "calculate_mood_score ''i ate rice today'' = 0"
           "calculate_cgm_score ''i ate rice today'' = 0"
           "calculate_food_score ''i ate rice today'' = 4"
           "calculate_planning_score ''i ate rice today'' = 1"
           "calculate_insights_score ''i ate rice today'' = 0"
    by code_simp+
  have s2: "calculate_mood_score ''hello there'' = 0"
           "calculate_cgm_score ''hello there'' = 0"
           "calculate_food_score ''hello there'' = 0"
           "calculate_planning_score ''hello there'' = 0"
           "calculate_insights_score ''hello there'' = 0"
    by code_simp+
  have s3: "calculate_mood_score ''mood check test'' = 2"
           "calculate_cgm_score ''mood check test'' = 2"
           "calculate_food_score ''mood check test'' = 0"
           "calculate_planning_score ''mood check test'' = 0"
           "calculate_insights_score ''mood check test'' = 0"
    by code_simp+
  have s4: "calculate_mood_score ''check rice'' = 0"
           "calculate_cgm_score ''check rice'' = 1"
           "calculate_food_score ''check rice'' = 1"
           "calculate_planning_score ''check rice'' = 0"
           "calculate_insights_score ''check rice'' = 0"
    by code_simp+
  have s5: "calculate_mood_score ''i feel sad about my reading 5'' = 7"
           "calculate_cgm_score ''i feel sad about my reading 5'' = 2"
    by code_simp+
  show ?thesis
    using intent_by_highest_score [of "''I ate rice today''"]
      intent_by_highest_score [of "''hello there''"]
      intent_by_highest_score [of "''mood check test''"]
      intent_by_highest_score [of "''check rice''"]
      intent_by_highest_score [of "''i feel sad about my reading 5''"]
    by (simp add: st h s1 s2 s3 s4 s5 del: re_search.simps)
qed

lemma normal_at_120:
  "alert_type_of (range_for_conditions cs) 120 = ''normal''"
  "alert_type_of (cgm_range_of ''default'') 120 = ''normal''"
  by (simp_all add: range_for_conditions_def cgm_range_of_simps alert_type_of_def)

text \<open>
  Claim C3, as amended.  The input \<open>My glucose reading is 120\<close> is classified as
  \<open>cgm_monitoring\<close> and the extractor returns 120.  For every logged-in user the
  reading 120 is \<open>normal\<close>.  When the conditions of the user hold no diabetic
  condition, the target range that is applied and reported is 70 to 140 if the conditions
  are empty or hold \<open>None\<close>, and 80 to 140 (the default entry) otherwise; for a user
  id not found in the storage it is 80 to 140 as well.
\<close>

theorem glucose_scenario:
  "detect_primary_intent ''My glucose reading is 120'' = ''cgm_monitoring''
   \<and> extract_glucose_reading ''My glucose reading is 120'' = Some 120
   \<and> (\<forall>db uid. uid \<noteq> [] \<longrightarrow>
         (let res = fst (process_glucose_reading (Some uid) 120 db)
          in alert_type res = Some ''normal''
             \<and> (case validate_user_id db uid of
                   None \<Rightarrow> target_range res = Some (80, 140)
                 | Some u \<Rightarrow>
                     ''Type 1 Diabetes'' \<notin> set (medical_conditions u)
                     \<and> ''Type 2 Diabetes'' \<notin> set (medical_conditions u)
                     \<and> ''Pre-diabetes'' \<notin> set (medical_conditions u)
                     \<longrightarrow> target_range res =
                           (if ''None'' \<in> set (medical_conditions u)
                               \<or> medical_conditions u = []
                            then Some (70, 140) else Some (80, 140)))))"
proof -
  have 1: "detect_primary_intent ''My glucose reading is 120'' = ''cgm_monitoring''"
    by code_simp
  have 2: "extract_glucose_reading ''My glucose reading is 120'' = Some 120"
    by code_simp
  have 3: "alert_type (fst (process_glucose_reading (Some uid) 120 db)) = Some ''normal''"
    if "uid \<noteq> []" for uid db
    using that normal_at_120
    by (simp add: process_glucose_reading_def not_authenticated_def Let_def
        get_user_cgm_range_def split: option.split)
  have 4: "target_range (fst (process_glucose_reading (Some uid) 120 db))
             = Some (target_min (get_user_cgm_range db uid),
                     target_max (get_user_cgm_range db uid))"
    if "uid \<noteq> []" for uid db
    using that by (simp add: process_glucose_reading_def not_authenticated_def Let_def)
  have 5: "(case validate_user_id db uid of
                   None \<Rightarrow> target_range (fst (process_glucose_reading (Some uid) 120 db))
                            = Some (80, 140)
                 | Some u \<Rightarrow>
                     ''Type 1 Diabetes'' \<notin> set (medical_conditions u)
                     \<and> ''Type 2 Diabetes'' \<notin> set (medical_conditions u)
                     \<and> ''Pre-diabetes'' \<notin> set (medical_conditions u)
                     \<longrightarrow> target_range (fst (process_glucose_reading (Some uid) 120 db)) =
                           (if ''None'' \<in> set (medical_conditions u)
                               \<or> medical_conditions u = []
                            then Some (70, 140) else Some (80, 140)))"
    if "uid \<noteq> []" for uid db
    unfolding 4 [OF that]
    by (simp add: get_user_cgm_range_def range_for_conditions_def cgm_range_of_simps
        split: option.split)
  from 1 2 3 5 show ?thesis by (simp add: Let_def)
qed

theorem glucose_scenario_witness:
  "alert_type (fst (process_glucose_reading (Some ''1003'') 120 example_db)) = Some ''normal''
   \<and> target_range (fst (process_glucose_reading (Some ''1003'') 120 example_db))
       = Some (70, 140)
   \<and> target_range (fst (process_glucose_reading (Some ''1002'') 120 example_db))
       = Some (80, 140)
   \<and> target_range (fst (process_glucose_reading (Some ''9999'') 120 example_db))
       = Some (80, 140)"
proof -
  have a: "validate_user_id example_db ''1003''
             = Some \<lparr>user_id = ''1003'', name = ''Cy Diaz'', city = ''Rome'',
                     dietary_category = ''omnivore'', medical_conditions = []\<rparr>"
          "validate_user_id example_db ''1002''
             = Some \<lparr>user_id = ''1002'', name = ''Bo Chen'', city = ''Lima'',
                     dietary_category = ''vegetarian'',
                     medical_conditions = [''Hypertension'']\<rparr>"
          "validate_user_id example_db ''9999'' = None"
    by (simp_all add: validate_user_id_def example_db_def)
  from glucose_scenario have g: "\<And>db uid. uid \<noteq> [] \<Longrightarrow>
         (let res = fst (process_glucose_reading (Some uid) 120 db)
          in alert_type res = Some ''normal''
             \<and> (case validate_user_id db uid of
                   None \<Rightarrow> target_range res = Some (80, 140)
                 | Some u \<Rightarrow>
                     ''Type 1 Diabetes'' \<notin> set (medical_conditions u)
                     \<and> ''Type 2 Diabetes'' \<notin> set (medical_conditions u)
                     \<and> ''Pre-diabetes'' \<notin> set (medical_conditions u)
                     \<longrightarrow> target_range res =
                           (if ''None'' \<in> set (medical_conditions u)
                               \<or> medical_conditions u = []
                            then Some (70, 140) else Some (80, 140))))"
    by blast
  show ?thesis
    using g [of "''1003''" example_db] g [of "''1002''" example_db]
      g [of "''9999''" example_db]
    by (simp add: Let_def a)
qed

text \<open>The target range of a user without a diabetic condition is never 70 to 180;
  those two numbers are the fields \<open>min_bound\<close> and \<open>max_bound\<close> of the default entry,
  which the classification does not read.\<close>

theorem glucose_scenario_counterexample:
  "target_range (fst (process_glucose_reading (Some ''1003'') 120 example_db))
     \<noteq> Some (70, 180)
   \<and> target_range (fst (process_glucose_reading (Some ''1002'') 120 example_db))
     \<noteq> Some (70, 180)
   \<and> (target_min (cgm_range_of ''default''), target_max (cgm_range_of ''default''))
     \<noteq> (70, 180)"
  by (simp add: process_glucose_reading_def not_authenticated_def Let_def
      example_db_ranges cgm_range_of_simps)

text \<open>
  Claim C7.  The input \<open>I'm feeling really great today!\<close> is classified as
  \<open>mood_tracking\<close>; the label extracted from it is \<open>great\<close>, from the input itself
  and from what the dispatcher passes on after cutting the prefix \<open>i'm feeling\<close>; the
  score of the label \<open>great\<close> is 8.
\<close>

theorem mood_scenario:
  "detect_primary_intent ''I'm feeling really great today!'' = ''mood_tracking''
   \<and> extract_simple_mood_label ''I'm feeling really great today!'' = ''great''
   \<and> extract_mood_from_input ''I'm feeling really great today!'' = ''really great today!''
   \<and> extract_simple_mood_label (extract_mood_from_input ''I'm feeling really great today!'')
       = ''great''
   \<and> convert_mood_to_score ''great'' = 8"
  by code_simp

theorem four_digits_look_like_user_id_witness:
  "strip ''  1234 '' = ''1234''
   \<and> looks_like_user_id (strip ''  1234 '')
   \<and> \<not> looks_like_name_search (strip ''  1234 '')
   \<and> process_user_input failing_collaborators initial_session ''  1234 ''
       = Inl (Exception ''no such table: users'')"
proof -
  have s: "strip ''  1234 '' = [CHR ''1'', CHR ''2'', CHR ''3'', CHR ''4'']"
    by (simp add: strip_def lstrip_def rstrip_def is_space_def)
  have d: "is_digit CHR ''1''" "is_digit CHR ''2''" "is_digit CHR ''3''" "is_digit CHR ''4''"
    by (simp_all add: is_digit_def)
  show ?thesis
    using four_digits_look_like_user_id [OF s d, of initial_session failing_collaborators]
    by (simp add: s initial_session_def failing_collaborators_def)
qed

lemma authenticated_turn_caught_example:
  "process_user_input failing_collaborators logged_in_session ''I feel sad''
       = Inr (\<lparr>response = Sorry_error ''mood'', agent_used = Some ''SystemError'',
               reply_state = ''authenticated'', suggested_user_id = None\<rparr>,
              logged_in_session)"
proof -
  have h: "system_state logged_in_session \<noteq> ''unauthenticated''"
    by (simp add: logged_in_session_def)
  have s: "strip ''I feel sad'' = ''I feel sad''"
    by (simp add: strip_def lstrip_def rstrip_def is_space_def)
  have i: "detect_primary_intent ''I feel sad'' = ''mood_tracking''"
    by code_simp
  have c: "lower ''I feel sad'' \<notin> set [''help'', ''features'', ''what can you do'',
             ''options'', ''logout'', ''sign out'', ''exit'']"
    by (simp add: lower_def lower_char_def is_upper_def)
  have n: "strip ''I feel sad'' \<noteq> []" by (simp add: s)
  show ?thesis
    using authenticated_turn_dispatch [OF h n, of failing_collaborators] c
    by (simp add: s i failing_collaborators_def) (simp add: logged_in_session_def)
qed



theorem extractors_total_witness:
  "convert_mood_to_score ''meh'' = 5
   \<and> extract_glucose_reading ''Pasta night'' = None
   \<and> extract_meal_description ''Pasta night'' = ''Pasta night''
   \<and> extract_date_from_input example_clock ''Pasta night'' = None
   \<and> extract_name_from_input ''Pasta night'' = ''Pasta night''
   \<and> extract_glucose_reading ''it was 5.75 mg/dl'' \<noteq> None"
proof -
  have h1: "map_of mood_scores (strip (lower ''meh'')) = None"
    by code_simp
  have h2: "\<not> any_in [''terrible'', ''awful'', ''horrible'', ''worst'',
                   ''very sad'', ''depressed'', ''miserable'', ''devastated'',
                   ''sad'', ''down'', ''low'', ''blue'', ''upset'',
                   ''tired'', ''sluggish'', ''drained'', ''exhausted'', ''weary'',
                   ''good'', ''decent'', ''alright'', ''better'',
                   ''happy'', ''positive'', ''cheerful'', ''content'',
                   ''great'', ''wonderful'', ''fantastic'', ''awesome'',
                   ''excited'', ''amazing'', ''thrilled'', ''energetic'',
                   ''ecstatic'', ''overjoyed'', ''blissful'', ''euphoric''] (strip (lower ''meh''))"
    by code_simp
  have h3: "\<not> list_ex is_digit ''Pasta night''"
    by code_simp
  have h4: "\<not> list_ex (startswith (lower ''Pasta night''))
          [''i ate'', ''i had'', ''just ate'', ''just had'', ''meal:'', ''food:'',
           ''consumed'', ''eaten'', ''my meal was'', ''for lunch i had'',
           ''for dinner i had'', ''for breakfast i had'']"
    by code_simp
  have h5: "\<not> contains ''today'' (lower ''Pasta night'')"
           "\<not> contains ''tomorrow'' (lower ''Pasta night'')"
           "\<not> contains ''yesterday'' (lower ''Pasta night'')"
    by code_simp+
  have h6: "\<forall>pre \<in> set name_patterns.
              re_search_group pre (plus Dot) Eps (lower ''Pasta night'') = None"
    by code_simp
  have h7: "strip ''Pasta night'' = ''Pasta night''"
    by code_simp
  have h8: "list_ex is_digit ''it was 5.75 mg/dl''"
    by code_simp
  have a: "convert_mood_to_score ''meh'' = 5
     \<and> extract_glucose_reading ''Pasta night'' = None
     \<and> extract_meal_description ''Pasta night'' = strip ''Pasta night''
     \<and> extract_date_from_input example_clock ''Pasta night'' = None
     \<and> extract_name_from_input ''Pasta night'' = strip ''Pasta night''"
    using extractors_total [of "''meh''" "''Pasta night''" example_clock]
      h1 h2 h3 h4 h5 h6
    by blast
  have b: "extract_glucose_reading ''it was 5.75 mg/dl'' \<noteq> None"
    using extractors_total [of "''meh''" "''it was 5.75 mg/dl''" example_clock] h8
    by blast
  from a b show ?thesis by (simp only: h7) blast
qed

end
